theory Spec2Isabelle
  imports Complex_Main
begin

section \<open>Numbers\<close>

text \<open>
  Python floats are modelled as reals. Two library functions of the sources have a
  behaviour that a real number cannot carry and are written out: the float remainder
  \<^verbatim>\<open>a % b\<close>, which takes the sign of the divisor, and \<^verbatim>\<open>math.isclose\<close>, whose
  relative tolerance keeps its default \<^verbatim>\<open>1e-09\<close> when only \<^verbatim>\<open>abs_tol\<close> is passed.
\<close>

definition py_mod :: "real \<Rightarrow> real \<Rightarrow> real" where
  "py_mod a b = a - b * of_int \<lfloor>a / b\<rfloor>"

definition isclose :: "real \<Rightarrow> real \<Rightarrow> real \<Rightarrow> bool" where
  "isclose a b abs_tol \<longleftrightarrow> \<bar>a - b\<bar> \<le> max ((1 / 10 ^ 9) * max \<bar>a\<bar> \<bar>b\<bar>) abs_tol"

definition radians :: "real \<Rightarrow> real" where
  "radians d = d * pi / 180"

definition degrees :: "real \<Rightarrow> real" where
  "degrees r = r * 180 / pi"

text \<open>
  \<^verbatim>\<open>Effective_Area_Calculation.py\<close> writes \<^verbatim>\<open>float('inf')\<close> into a coordinate, so the
  coordinates of a vertex are floats with their three non-finite values.
\<close>

datatype fl = Fin real | PInf | NInf | NaN

fun fl_neg :: "fl \<Rightarrow> fl" where
  "fl_neg (Fin a) = Fin (- a)"
| "fl_neg PInf = NInf"
| "fl_neg NInf = PInf"
| "fl_neg NaN = NaN"

definition inf_times :: "real \<Rightarrow> fl" where
  "inf_times a = (if 0 < a then PInf else if a < 0 then NInf else NaN)"

fun fl_mul :: "fl \<Rightarrow> fl \<Rightarrow> fl" where
  "fl_mul NaN _ = NaN"
| "fl_mul _ NaN = NaN"
| "fl_mul (Fin a) (Fin b) = Fin (a * b)"
| "fl_mul (Fin a) PInf = inf_times a"
| "fl_mul (Fin a) NInf = inf_times (- a)"
| "fl_mul PInf (Fin b) = inf_times b"
| "fl_mul NInf (Fin b) = inf_times (- b)"
| "fl_mul PInf PInf = PInf"
| "fl_mul PInf NInf = NInf"
| "fl_mul NInf PInf = NInf"
| "fl_mul NInf NInf = PInf"

fun fl_sub :: "fl \<Rightarrow> fl \<Rightarrow> fl" where
  "fl_sub NaN _ = NaN"
| "fl_sub _ NaN = NaN"
| "fl_sub (Fin a) (Fin b) = Fin (a - b)"
| "fl_sub (Fin a) PInf = NInf"
| "fl_sub (Fin a) NInf = PInf"
| "fl_sub PInf (Fin b) = PInf"
| "fl_sub NInf (Fin b) = NInf"
| "fl_sub PInf PInf = NaN"
| "fl_sub PInf NInf = PInf"
| "fl_sub NInf PInf = NInf"
| "fl_sub NInf NInf = NaN"

type_synonym point = "fl \<times> fl"

section \<open>The geometry library\<close>

text \<open>
  The polygon operations come from the \<^verbatim>\<open>shapely\<close> package, which is no part of the
  repository: they are a parameter of every function that calls them. A geometry has an
  exterior ring only when it is a single polygon; reading \<^verbatim>\<open>.exterior\<close> of any other
  geometry raises \<^verbatim>\<open>AttributeError\<close>, so the field gives an option.
\<close>

record 'g shapely =
  Polygon :: "point list \<Rightarrow> 'g"
  intersection :: "'g \<Rightarrow> 'g \<Rightarrow> 'g"
  unary_union :: "'g list \<Rightarrow> 'g"
  difference :: "'g \<Rightarrow> 'g \<Rightarrow> 'g"
  is_empty :: "'g \<Rightarrow> bool"
  exterior_coords :: "'g \<Rightarrow> point list option"
  has_area :: "'g \<Rightarrow> bool"
  area :: "'g \<Rightarrow> real"

datatype error = AttributeError | ValueError | OverflowError | ZeroDivisionError

section \<open>ShadowCalculator\<close>

record ShadowCalculator =
  self_L :: real
  self_D :: real
  self_H :: real
  self_A_SA :: real
  self_A_chassis :: real

definition CONFIG :: "real \<times> real \<times> real" where
  "CONFIG = (13 / 10, 28 / 10, 81 / 10)"

definition init :: "real option \<Rightarrow> real option \<Rightarrow> real option \<Rightarrow> ShadowCalculator" where
  "init L D H =
     (let l = (case L of Some v \<Rightarrow> v | None \<Rightarrow> fst CONFIG);
          d = (case D of Some v \<Rightarrow> v | None \<Rightarrow> fst (snd CONFIG));
          h = (case H of Some v \<Rightarrow> v | None \<Rightarrow> snd (snd CONFIG))
      in \<lparr>self_L = l, self_D = d, self_H = h, self_A_SA = d * h, self_A_chassis = l * d\<rparr>)"

subsection \<open>The quadrant of an elevation angle\<close>

text \<open>\<^verbatim>\<open>Effective_Area_Calculation.py\<close>: the third test is \<^verbatim>\<open>180 <= phi <= 270\<close>.\<close>

definition get_quadrant :: "real \<Rightarrow> nat" where
  "get_quadrant phi_deg =
     (let phi = py_mod phi_deg 360
      in if 0 \<le> phi \<and> phi < 90 then 1
         else if 90 \<le> phi \<and> phi < 180 then 2
         else if 180 \<le> phi \<and> phi \<le> 270 then 3
         else 4)"

text \<open>\<^verbatim>\<open>analysis/ABmag_SolarPhaseAngle_new.py\<close>: the third test is \<^verbatim>\<open>180 <= phi < 270\<close>.\<close>

definition get_quadrant_new :: "real \<Rightarrow> nat" where
  "get_quadrant_new phi_deg =
     (let phi = py_mod phi_deg 360
      in if 0 \<le> phi \<and> phi < 90 then 1
         else if 90 \<le> phi \<and> phi < 180 then 2
         else if 180 \<le> phi \<and> phi < 270 then 3
         else 4)"

subsection \<open>The shadow of one light source\<close>

definition solar_array_rect :: "ShadowCalculator \<Rightarrow> point list" where
  "solar_array_rect self =
     [(Fin 0, Fin 0), (Fin (self_D self), Fin 0),
      (Fin (self_D self), Fin (self_H self)), (Fin 0, Fin (self_H self))]"

definition vertical_shadow :: "ShadowCalculator \<Rightarrow> point list" where
  "vertical_shadow self =
     [(Fin 0, Fin 0), (Fin (self_D self), Fin 0),
      (Fin (self_D self), Fin (self_L self)), (Fin 0, Fin (self_L self))]"

definition parallelogram :: "ShadowCalculator \<Rightarrow> fl \<Rightarrow> fl \<Rightarrow> point list" where
  "parallelogram self x_offset y_offset =
     [(Fin 0, Fin 0), (Fin (self_D self), Fin 0),
      (fl_sub (Fin (self_D self)) x_offset, y_offset),
      (fl_neg x_offset, y_offset)]"

text \<open>The tail of \<^verbatim>\<open>calculate_shadow\<close>, the same in both files.\<close>

definition clip_to_array ::
  "'g shapely \<Rightarrow> ShadowCalculator \<Rightarrow> 'g \<Rightarrow> error + (point list \<times> real)" where
  "clip_to_array g self shadow_poly =
     (let shadow_intersection = intersection g shadow_poly (Polygon g (solar_array_rect self))
      in if is_empty g shadow_intersection then Inr ([], 0)
         else (case exterior_coords g shadow_intersection of
                 None \<Rightarrow> Inl AttributeError
               | Some vertices \<Rightarrow> Inr (vertices, area g shadow_intersection)))"

text \<open>\<^verbatim>\<open>Effective_Area_Calculation.py\<close>: no clamp, and an infinite cotangent where the
  tangent is zero. In exact arithmetic that is every multiple of 180 degrees; in doubles it
  is the angle 0 alone, where \<^verbatim>\<open>math.radians\<close> and \<^verbatim>\<open>math.tan\<close> are exact.\<close>

definition cot_phi :: "real \<Rightarrow> fl" where
  "cot_phi phi = (if tan phi \<noteq> 0 then Fin (1 / tan phi) else PInf)"

definition shadow_poly :: "ShadowCalculator \<Rightarrow> real \<Rightarrow> real \<Rightarrow> point list" where
  "shadow_poly self phi_deg theta_deg =
     (let phi = radians phi_deg; theta = radians theta_deg
      in if isclose (py_mod phi_deg 180) 90 (1 / 10 ^ 9) then vertical_shadow self
         else (let x_offset = fl_mul (fl_mul (Fin (self_L self)) (cot_phi phi)) (Fin (sin theta));
                   y_offset = fl_mul (fl_mul (Fin (self_L self)) (cot_phi phi)) (Fin (cos theta))
               in parallelogram self x_offset y_offset))"

definition calculate_shadow ::
  "'g shapely \<Rightarrow> ShadowCalculator \<Rightarrow> real \<Rightarrow> real \<Rightarrow> error + (point list \<times> real)" where
  "calculate_shadow g self phi_deg theta_deg =
     clip_to_array g self (Polygon g (shadow_poly self phi_deg theta_deg))"

text \<open>\<^verbatim>\<open>analysis/ABmag_SolarPhaseAngle_new.py\<close>: the tangent goes through
  \<^verbatim>\<open>max(1e-10, math.tan(phi))\<close> and both offsets through \<^verbatim>\<open>max(-1e6, min(1e6, .))\<close>.\<close>

definition cot_phi_new :: "real \<Rightarrow> real" where
  "cot_phi_new phi = 1 / max (1 / 10 ^ 10) (tan phi)"

definition x_offset_new :: "ShadowCalculator \<Rightarrow> real \<Rightarrow> real \<Rightarrow> real" where
  "x_offset_new self phi theta = max (- (10 ^ 6)) (min (10 ^ 6) (self_L self * cot_phi_new phi * sin theta))"

definition y_offset_new :: "ShadowCalculator \<Rightarrow> real \<Rightarrow> real \<Rightarrow> real" where
  "y_offset_new self phi theta = max (- (10 ^ 6)) (min (10 ^ 6) (self_L self * cot_phi_new phi * cos theta))"

definition shadow_poly_new :: "ShadowCalculator \<Rightarrow> real \<Rightarrow> real \<Rightarrow> point list" where
  "shadow_poly_new self phi_deg theta_deg =
     (let phi = radians phi_deg; theta = radians theta_deg
      in if isclose (py_mod phi_deg 180) 90 (1 / 10 ^ 9) then vertical_shadow self
         else parallelogram self (Fin (x_offset_new self phi theta)) (Fin (y_offset_new self phi theta)))"

definition calculate_shadow_new ::
  "'g shapely \<Rightarrow> ShadowCalculator \<Rightarrow> real \<Rightarrow> real \<Rightarrow> error + (point list \<times> real)" where
  "calculate_shadow_new g self phi_deg theta_deg =
     clip_to_array g self (Polygon g (shadow_poly_new self phi_deg theta_deg))"

subsection \<open>Two light sources\<close>

definition combine ::
  "'g shapely \<Rightarrow> ShadowCalculator \<Rightarrow> point list \<Rightarrow> point list \<Rightarrow> real \<times> 'g" where
  "combine g self v_i v_o =
     (let rect = Polygon g (solar_array_rect self);
          combined = unary_union g [Polygon g v_i, Polygon g v_o];
          non_shadow = difference g rect combined;
          non_shadow_area = (if has_area g non_shadow then area g non_shadow
                             else self_D self * self_H self)
      in (non_shadow_area, combined))"

definition calculate_combined_non_shadow ::
  "'g shapely \<Rightarrow> ShadowCalculator \<Rightarrow> real \<Rightarrow> real \<Rightarrow> real \<Rightarrow> real \<Rightarrow> error + (real \<times> 'g)" where
  "calculate_combined_non_shadow g self phi_i theta_i phi_o theta_o =
     (case calculate_shadow g self phi_i theta_i of
        Inl e \<Rightarrow> Inl e
      | Inr (v_i, _) \<Rightarrow>
          (case calculate_shadow g self phi_o theta_o of
             Inl e \<Rightarrow> Inl e
           | Inr (v_o, _) \<Rightarrow> Inr (combine g self v_i v_o)))"

definition calculate_combined_non_shadow_new ::
  "'g shapely \<Rightarrow> ShadowCalculator \<Rightarrow> real \<Rightarrow> real \<Rightarrow> real \<Rightarrow> real \<Rightarrow> error + (real \<times> 'g)" where
  "calculate_combined_non_shadow_new g self phi_i theta_i phi_o theta_o =
     (case calculate_shadow_new g self phi_i theta_i of
        Inl e \<Rightarrow> Inl e
      | Inr (v_i, _) \<Rightarrow>
          (case calculate_shadow_new g self phi_o theta_o of
             Inl e \<Rightarrow> Inl e
           | Inr (v_o, _) \<Rightarrow> Inr (combine g self v_i v_o)))"

definition calculate_special_case ::
  "'g shapely \<Rightarrow> ShadowCalculator \<Rightarrow> real \<Rightarrow> real \<Rightarrow> real \<Rightarrow> real \<Rightarrow> error + real" where
  "calculate_special_case g self phi_i theta_i phi_o theta_o =
     (let quad_i = get_quadrant phi_i;
          phi_i_adj = (if quad_i = 1 then 0 else phi_i - 270);
          phi_o_adj = phi_o - 270
      in case calculate_combined_non_shadow g self phi_i_adj theta_i phi_o_adj theta_o of
           Inl e \<Rightarrow> Inl e
         | Inr (non_shadow_area, _) \<Rightarrow> Inr non_shadow_area)"

definition calculate_special_case_new ::
  "'g shapely \<Rightarrow> ShadowCalculator \<Rightarrow> real \<Rightarrow> real \<Rightarrow> real \<Rightarrow> real \<Rightarrow> error + real" where
  "calculate_special_case_new g self phi_i theta_i phi_o theta_o =
     (let quad_i = get_quadrant_new phi_i;
          phi_i_adj = (if quad_i = 1 then 0 else phi_i - 270);
          phi_o_adj = phi_o - 270
      in case calculate_combined_non_shadow_new g self phi_i_adj theta_i phi_o_adj theta_o of
           Inl e \<Rightarrow> Inl e
         | Inr (non_shadow_area, _) \<Rightarrow> Inr non_shadow_area)"

subsection \<open>The case table\<close>

text \<open>
  The block under \<^verbatim>\<open># Case determination\<close>, the same in both files. Both areas start
  at 0 and a branch that assigns nothing leaves them there.
\<close>

definition case_determination ::
  "nat \<Rightarrow> nat \<Rightarrow> (error + real) \<Rightarrow> ShadowCalculator \<Rightarrow> error + (real \<times> real)" where
  "case_determination quad_i quad_o special self =
     (if quad_i = 1 then
        (if quad_o = 3 then Inr (0, 0)
         else if quad_o = 4 then
           (case special of Inl e \<Rightarrow> Inl e | Inr A_eff_SA \<Rightarrow> Inr (A_eff_SA, 0))
         else Inr (0, 0))
      else if quad_i = 2 then
        (if quad_o = 3 then Inr (self_A_SA self, 0)
         else if quad_o = 4 then Inr (0, 0)
         else Inr (0, 0))
      else if quad_i = 3 then
        (if quad_o = 3 then Inr (self_A_SA self, self_A_chassis self)
         else if quad_o = 4 then Inr (0, self_A_chassis self)
         else Inr (0, 0))
      else if quad_i = 4 then
        (if quad_o = 3 then Inr (0, self_A_chassis self)
         else if quad_o = 4 then
           (case special of Inl e \<Rightarrow> Inl e | Inr A_eff_SA \<Rightarrow> Inr (A_eff_SA, self_A_chassis self))
         else Inr (0, 0))
      else Inr (0, 0))"

definition calculate_effective_area ::
  "'g shapely \<Rightarrow> ShadowCalculator \<Rightarrow> real \<Rightarrow> real \<Rightarrow> real \<Rightarrow> real \<Rightarrow> error + (real \<times> real)" where
  "calculate_effective_area g self phi_i theta_i phi_o theta_o =
     case_determination (get_quadrant phi_i) (get_quadrant phi_o)
       (calculate_special_case g self phi_i theta_i phi_o theta_o) self"

subsection \<open>Direction vectors\<close>

definition py_asin :: "real \<Rightarrow> error + real" where
  "py_asin v = (if - 1 \<le> v \<and> v \<le> 1 then Inr (arcsin v) else Inl ValueError)"

text \<open>
  \<^verbatim>\<open>sin_theta = y / math.cos(phi_rad)\<close>: the cosine of a double is never \<^verbatim>\<open>0.0\<close>
  (at the double nearest to a right angle it is \<^verbatim>\<open>6.1e-17\<close>), so the division does not
  raise. The real cosine is 0 only for a vector on the z axis, where \<open>y\<close> is 0 and the
  float quotient is \<^verbatim>\<open>0.0\<close>; the model gives that value there.
\<close>

definition sin_theta_of :: "real \<Rightarrow> real \<Rightarrow> real" where
  "sin_theta_of y phi_rad = (if cos phi_rad = 0 then 0 else y / cos phi_rad)"

text \<open>
  \<^verbatim>\<open>cartesian_to_spherical\<close> in exact arithmetic. Rounding is not in this definition: it
  is in \<open>cartesian_to_spherical_head\<close> below, for the statements up to the first
  \<^verbatim>\<open>math.asin\<close>.
\<close>

definition cartesian_to_spherical :: "real \<Rightarrow> real \<Rightarrow> real \<Rightarrow> error + (real \<times> real)" where
  "cartesian_to_spherical x0 y0 z0 =
     (let norm = sqrt (x0\<^sup>2 + y0\<^sup>2 + z0\<^sup>2)
      in if norm = 0 then Inr (0, 0)
         else
           (let x = x0 / norm; y = y0 / norm; z = z0 / norm
            in case py_asin z of
                 Inl e \<Rightarrow> Inl e
               | Inr phi_rad \<Rightarrow>
                   (let phi_deg0 = degrees phi_rad;
                        phi_deg = (if 0 < x then py_mod phi_deg0 360 else 180 - phi_deg0)
                    in if isclose \<bar>phi_deg\<bar> 90 (1 / 10 ^ 9) then Inr (py_mod phi_deg 360, 0)
                       else
                         (let sin_theta = max (- 1) (min 1 (sin_theta_of y phi_rad))
                          in case py_asin sin_theta of
                               Inl e \<Rightarrow> Inl e
                             | Inr theta_rad \<Rightarrow> Inr (py_mod phi_deg 360, degrees theta_rad)))))"

definition calculate_effective_area_new ::
  "'g shapely \<Rightarrow> ShadowCalculator \<Rightarrow> real \<Rightarrow> real \<Rightarrow> real \<Rightarrow> real \<Rightarrow> real \<Rightarrow> real
     \<Rightarrow> error + (real \<times> real)" where
  "calculate_effective_area_new g self xi yi zi xo yo zo =
     (case cartesian_to_spherical xi yi zi of
        Inl e \<Rightarrow> Inl e
      | Inr (phi_i, theta_i) \<Rightarrow>
          (case cartesian_to_spherical xo yo zo of
             Inl e \<Rightarrow> Inl e
           | Inr (phi_o, theta_o) \<Rightarrow>
               case_determination (get_quadrant_new phi_i) (get_quadrant_new phi_o)
                 (calculate_special_case_new g self phi_i theta_i phi_o theta_o) self))"

subsection \<open>The first statements in double arithmetic\<close>

text \<open>
  A double is a real that \<open>round_double\<close> leaves alone. \<open>round_double\<close> rounds to the
  nearest multiple of the unit in the last place, ties to the even multiple, with 53
  significant bits down to the exponent -1022 and the fixed unit \<open>2 powr -1074\<close> below
  it; a result beyond the largest double is an infinity.
\<close>

definition max_double :: real where
  "max_double = (2 - 1 / 2 ^ 52) * 2 ^ 1023"

definition expo :: "real \<Rightarrow> int" where
  "expo v = max \<lfloor>log 2 \<bar>v\<bar>\<rfloor> (- 1022)"

definition round_half_even :: "real \<Rightarrow> int" where
  "round_half_even r =
     (let f = \<lfloor>r\<rfloor>; d = r - of_int f
      in if d < 1 / 2 then f else if 1 / 2 < d then f + 1 else if even f then f else f + 1)"

definition round_double :: "real \<Rightarrow> fl" where
  "round_double v =
     (if v = 0 then Fin 0
      else (let u = 2 powr (of_int (expo v - 52));
                r = u * of_int (round_half_even (v / u))
            in if max_double < \<bar>r\<bar> then (if 0 < v then PInf else NInf) else Fin r))"

text \<open>
  \<^verbatim>\<open>v ** 2\<close> raises \<^verbatim>\<open>OverflowError\<close> when the rounded square is infinite; the sum, the
  square root and the quotient do not raise on overflow. \<^verbatim>\<open>math.sqrt\<close> and \<^verbatim>\<open>math.asin\<close>
  raise \<^verbatim>\<open>ValueError\<close> outside their domain and pass a NaN on.
\<close>

definition double_pow2 :: "real \<Rightarrow> error + real" where
  "double_pow2 v = (case round_double (v * v) of Fin r \<Rightarrow> Inr r | _ \<Rightarrow> Inl OverflowError)"

fun double_add :: "fl \<Rightarrow> fl \<Rightarrow> fl" where
  "double_add (Fin a) (Fin b) = round_double (a + b)"
| "double_add NaN _ = NaN"
| "double_add _ NaN = NaN"
| "double_add PInf NInf = NaN"
| "double_add NInf PInf = NaN"
| "double_add PInf _ = PInf"
| "double_add NInf _ = NInf"
| "double_add _ PInf = PInf"
| "double_add _ NInf = NInf"

fun double_sqrt :: "fl \<Rightarrow> error + fl" where
  "double_sqrt (Fin a) = (if a < 0 then Inl ValueError else Inr (round_double (sqrt a)))"
| "double_sqrt PInf = Inr PInf"
| "double_sqrt NInf = Inl ValueError"
| "double_sqrt NaN = Inr NaN"

fun double_div :: "real \<Rightarrow> fl \<Rightarrow> error + fl" where
  "double_div a (Fin n) = (if n = 0 then Inl ZeroDivisionError else Inr (round_double (a / n)))"
| "double_div a PInf = Inr (Fin 0)"
| "double_div a NInf = Inr (Fin 0)"
| "double_div a NaN = Inr NaN"

fun double_asin_ok :: "fl \<Rightarrow> bool" where
  "double_asin_ok (Fin v) \<longleftrightarrow> - 1 \<le> v \<and> v \<le> 1"
| "double_asin_ok PInf \<longleftrightarrow> False"
| "double_asin_ok NInf \<longleftrightarrow> False"
| "double_asin_ok NaN \<longleftrightarrow> True"

text \<open>
  Lines 23 to 29 of \<^verbatim>\<open>analysis/ABmag_SolarPhaseAngle_new.py\<close>, for three doubles: the
  norm, the return of (0, 0) when it is 0, the three quotients, and the test that
  \<^verbatim>\<open>math.asin\<close> makes of its argument.
\<close>

datatype head = Sentinel | Normalised fl fl fl

definition and_then :: "'e + 'a \<Rightarrow> ('a \<Rightarrow> 'e + 'b) \<Rightarrow> 'e + 'b" where
  "and_then m f = (case m of Inl e \<Rightarrow> Inl e | Inr v \<Rightarrow> f v)"

definition cartesian_to_spherical_head :: "real \<Rightarrow> real \<Rightarrow> real \<Rightarrow> error + head" where
  "cartesian_to_spherical_head x y z =
     and_then (double_pow2 x) (\<lambda>x2.
     and_then (double_pow2 y) (\<lambda>y2.
     and_then (double_pow2 z) (\<lambda>z2.
     and_then (double_sqrt (double_add (double_add (Fin x2) (Fin y2)) (Fin z2))) (\<lambda>nrm.
       if nrm = Fin 0 then Inr Sentinel
       else
         and_then (double_div x nrm) (\<lambda>x'.
         and_then (double_div y nrm) (\<lambda>y'.
         and_then (double_div z nrm) (\<lambda>z'.
           if double_asin_ok z' then Inr (Normalised x' y' z') else Inl ValueError)))))))"

section \<open>The observer frame\<close>

type_synonym vec3 = "real \<times> real \<times> real"

fun norm3 :: "vec3 \<Rightarrow> real" where
  "norm3 (x, y, z) = sqrt (x\<^sup>2 + y\<^sup>2 + z\<^sup>2)"

fun scale3 :: "real \<Rightarrow> vec3 \<Rightarrow> vec3" where
  "scale3 c (x, y, z) = (c * x, c * y, c * z)"

fun divide3 :: "vec3 \<Rightarrow> real \<Rightarrow> vec3" where
  "divide3 (x, y, z) c = (x / c, y / c, z / c)"

fun neg3 :: "vec3 \<Rightarrow> vec3" where
  "neg3 (x, y, z) = (- x, - y, - z)"

fun minus3 :: "vec3 \<Rightarrow> vec3 \<Rightarrow> vec3" where
  "minus3 (a, b, c) (x, y, z) = (a - x, b - y, c - z)"

fun dot3 :: "vec3 \<Rightarrow> vec3 \<Rightarrow> real" where
  "dot3 (a, b, c) (x, y, z) = a * x + b * y + c * z"

fun cross3 :: "vec3 \<Rightarrow> vec3 \<Rightarrow> vec3" where
  "cross3 (a, b, c) (x, y, z) = (b * z - c * y, c * x - a * z, a * y - b * x)"

text \<open>A matrix is the triple of its rows, as \<^verbatim>\<open>np.vstack\<close> builds it.\<close>

type_synonym mat3 = "vec3 \<times> vec3 \<times> vec3"

fun transpose3 :: "mat3 \<Rightarrow> mat3" where
  "transpose3 ((a, b, c), (d, e, f), (g, h, i)) = ((a, d, g), (b, e, h), (c, f, i))"

fun matvec :: "mat3 \<Rightarrow> vec3 \<Rightarrow> vec3" where
  "matvec (r1, r2, r3) v = (dot3 r1 v, dot3 r2 v, dot3 r3 v)"

definition arctan2 :: "real \<Rightarrow> real \<Rightarrow> real" where
  "arctan2 y x =
     (if 0 < x then arctan (y / x)
      else if x < 0 \<and> 0 \<le> y then arctan (y / x) + pi
      else if x < 0 then arctan (y / x) - pi
      else if 0 < y then pi / 2
      else if y < 0 then - (pi / 2)
      else 0)"

fun xyz_to_alt_az :: "vec3 \<Rightarrow> real \<times> real" where
  "xyz_to_alt_az (x, y, z) =
     (let azimuth = py_mod (arctan2 y x) (2 * pi);
          altitude = arcsin (z / norm3 (x, y, z))
      in (degrees altitude, degrees azimuth))"

definition frame_y_s :: "vec3 \<Rightarrow> vec3 \<Rightarrow> vec3" where
  "frame_y_s z_s i_xyz =
     (let cross_product = cross3 z_s i_xyz;
          cross_norm = norm3 cross_product
      in if cross_norm < 1 / 10 ^ 10 then
           (let y_s = minus3 (0, 1, 0) (scale3 (dot3 (0, 1, 0) z_s) z_s)
            in if norm3 y_s < 1 / 10 ^ 10 then (1, 0, 0) else y_s)
         else divide3 cross_product cross_norm)"

definition frame_T :: "vec3 \<Rightarrow> vec3 \<Rightarrow> mat3" where
  "frame_T i_xyz o_xyz =
     (let z_s = neg3 o_xyz;
          y_s = frame_y_s z_s i_xyz;
          x_s0 = cross3 y_s z_s;
          x_s = divide3 x_s0 (norm3 x_s0)
      in transpose3 (x_s, y_s, z_s))"

definition satellite_to_observer_frame :: "vec3 \<Rightarrow> vec3 \<Rightarrow> real \<times> real \<times> real \<times> real" where
  "satellite_to_observer_frame i_xyz0 o_xyz0 =
     (let i_xyz = divide3 i_xyz0 (norm3 i_xyz0);
          o_xyz = divide3 o_xyz0 (norm3 o_xyz0);
          T = frame_T i_xyz o_xyz;
          v_sun_observer = matvec T i_xyz;
          v_sat_observer = matvec T (neg3 o_xyz);
          (sun_alt, sun_az) = xyz_to_alt_az v_sun_observer;
          (sat_alt, sat_az) = xyz_to_alt_az v_sat_observer
      in (sun_alt, sun_az, sat_alt, sat_az))"

text \<open>
  The transform as the specification words it: both vectors go through the transpose of
  \<open>T\<close>, which gives their components along \<open>x_s\<close>, \<open>y_s\<close> and \<open>z_s\<close>.
\<close>

definition observer_frame_transform_spec :: "vec3 \<Rightarrow> vec3 \<Rightarrow> real \<times> real \<times> real \<times> real" where
  "observer_frame_transform_spec i_xyz0 o_xyz0 =
     (let i_xyz = divide3 i_xyz0 (norm3 i_xyz0);
          o_xyz = divide3 o_xyz0 (norm3 o_xyz0);
          T = frame_T i_xyz o_xyz;
          v_sun_observer = matvec (transpose3 T) i_xyz;
          v_sat_observer = matvec (transpose3 T) (neg3 o_xyz);
          (sun_alt, sun_az) = xyz_to_alt_az v_sun_observer;
          (sat_alt, sat_az) = xyz_to_alt_az v_sat_observer
      in (sun_alt, sun_az, sat_alt, sat_az))"

section \<open>What the specification says\<close>

text \<open>
  The case table of the specification, one row for each of its eight listed quadrant
  pairs; every pair that is not listed gives (0, 0).
\<close>

definition effective_area_table ::
  "nat \<times> nat \<Rightarrow> (error + real) \<Rightarrow> real \<Rightarrow> real \<Rightarrow> error + (real \<times> real)" where
  "effective_area_table q special A_SA A_chassis =
     (if q = (1, 3) then Inr (0, 0)
      else if q = (1, 4) then map_sum id (\<lambda>a. (a, 0)) special
      else if q = (2, 3) then Inr (A_SA, 0)
      else if q = (2, 4) then Inr (0, 0)
      else if q = (3, 3) then Inr (A_SA, A_chassis)
      else if q = (3, 4) then Inr (0, A_chassis)
      else if q = (4, 3) then Inr (0, A_chassis)
      else if q = (4, 4) then map_sum id (\<lambda>a. (a, A_chassis)) special
      else Inr (0, 0))"

text \<open>
  What the functions need of the geometry library: the rectangle with corners (0, 0)
  and (w, h) has area w h, two such rectangles of the same width meet in the lower one,
  which is a single polygon, and the area of a region is the area of its part outside
  another region plus the area of its part inside.
\<close>

definition rect :: "real \<Rightarrow> real \<Rightarrow> point list" where
  "rect w h = [(Fin 0, Fin 0), (Fin w, Fin 0), (Fin w, Fin h), (Fin 0, Fin h)]"

definition measures_rectangles :: "'g shapely \<Rightarrow> bool" where
  "measures_rectangles g \<longleftrightarrow> (\<forall>w h. 0 < w \<and> 0 < h \<longrightarrow> area g (Polygon g (rect w h)) = w * h)"

definition intersects_rectangles :: "'g shapely \<Rightarrow> bool" where
  "intersects_rectangles g \<longleftrightarrow>
     (\<forall>w h1 h2. 0 < w \<and> 0 < h1 \<and> 0 < h2 \<longrightarrow>
        (let r = intersection g (Polygon g (rect w h1)) (Polygon g (rect w h2))
         in \<not> is_empty g r \<and> exterior_coords g r \<noteq> None \<and> area g r = w * min h1 h2))"

definition additive_area :: "'g shapely \<Rightarrow> bool" where
  "additive_area g \<longleftrightarrow>
     (\<forall>A B. has_area g (difference g A B) \<and>
        area g (difference g A B) + area g (intersection g B A) = area g A)"

fun plus3 :: "vec3 \<Rightarrow> vec3 \<Rightarrow> vec3" where
  "plus3 (a, b, c) (x, y, z) = (a + x, b + y, c + z)"

text \<open>
  The two versions of \<^verbatim>\<open>calculate_shadow\<close> build the same polygon where the clamps of
  \<^verbatim>\<open>analysis/ABmag_SolarPhaseAngle_new.py\<close> change nothing: the light is vertical, or the
  tangent is at least \<^verbatim>\<open>1e-10\<close> and both offsets are within \<^verbatim>\<open>1e6\<close> of zero.
\<close>

definition clamps_idle :: "ShadowCalculator \<Rightarrow> real \<Rightarrow> real \<Rightarrow> bool" where
  "clamps_idle self phi_deg theta_deg \<longleftrightarrow>
     isclose (py_mod phi_deg 180) 90 (1 / 10 ^ 9) \<or>
     (1 / 10 ^ 10 \<le> tan (radians phi_deg) \<and>
      \<bar>self_L self * (1 / tan (radians phi_deg)) * sin (radians theta_deg)\<bar> \<le> 10 ^ 6 \<and>
      \<bar>self_L self * (1 / tan (radians phi_deg)) * cos (radians theta_deg)\<bar> \<le> 10 ^ 6)"

text \<open>
  Altitude and azimuth of a vector in degrees, and the vector whose components along
  the axes \<open>x_s\<close>, \<open>y_s\<close>, \<open>z_s\<close> are the components of \<open>v\<close>.
\<close>

fun altitude_deg :: "vec3 \<Rightarrow> real" where
  "altitude_deg (x, y, z) = degrees (arcsin (z / norm3 (x, y, z)))"

fun azimuth_deg :: "vec3 \<Rightarrow> real" where
  "azimuth_deg (x, y, z) = py_mod (degrees (arctan2 y x)) 360"

fun weighted_axes :: "vec3 \<Rightarrow> vec3 \<Rightarrow> vec3 \<Rightarrow> vec3 \<Rightarrow> vec3" where
  "weighted_axes x_s y_s z_s (a, b, c) =
     plus3 (plus3 (scale3 a x_s) (scale3 b y_s)) (scale3 c z_s)"

section \<open>A geometry to evaluate on\<close>

text \<open>
  Regions that are nested around the origin, each one stood for by its area: of two
  regions the intersection is the smaller one and the union the larger one. A polygon
  is measured by the shoelace formula and a region hands back a rectangle of width 1
  as its ring.
\<close>

fun fl_val :: "fl \<Rightarrow> real" where
  "fl_val (Fin a) = a"
| "fl_val PInf = 0"
| "fl_val NInf = 0"
| "fl_val NaN = 0"

fun shoelace_sum :: "point list \<Rightarrow> real" where
  "shoelace_sum ((x1, y1) # (x2, y2) # ps) =
     (fl_val x1 * fl_val y2 - fl_val x2 * fl_val y1) + shoelace_sum ((x2, y2) # ps)"
| "shoelace_sum [p] = 0"
| "shoelace_sum [] = 0"

definition ring_area :: "point list \<Rightarrow> real" where
  "ring_area ps = (case ps of [] \<Rightarrow> 0 | p # _ \<Rightarrow> \<bar>shoelace_sum (ps @ [p])\<bar> / 2)"

definition chain_geometry :: "real shapely" where
  "chain_geometry =
     \<lparr>Polygon = ring_area,
      intersection = min,
      unary_union = (\<lambda>gs. fold max gs 0),
      difference = (\<lambda>a b. a - min a b),
      is_empty = (\<lambda>a. a \<le> 0),
      exterior_coords = (\<lambda>a. Some [(Fin 0, Fin 0), (Fin 1, Fin 0), (Fin 1, Fin a), (Fin 0, Fin a), (Fin 0, Fin 0)]),
      has_area = (\<lambda>a. True),
      area = (\<lambda>a. a)\<rparr>"

section \<open>Remainders and quadrants\<close>

lemma py_mod_range: "0 < b \<Longrightarrow> 0 \<le> py_mod a b \<and> py_mod a b < b"
proof -
  assume b: "0 < b"
  define q where "q = real_of_int \<lfloor>a / b\<rfloor>"
  have 1: "q \<le> a / b" unfolding q_def by simp
  have 2: "a / b < q + 1" unfolding q_def by linarith
  from 1 b have "q * b \<le> a" by (simp add: pos_le_divide_eq)
  moreover from 2 b have "a < (q + 1) * b" by (simp add: pos_divide_less_eq)
  ultimately show ?thesis unfolding py_mod_def q_def [symmetric] by (simp add: algebra_simps)
qed

lemma py_mod_small: "0 \<le> a \<Longrightarrow> a < b \<Longrightarrow> py_mod a b = a"
proof -
  assume a: "0 \<le> a" "a < b"
  then have "\<lfloor>a / b\<rfloor> = 0" by (simp add: floor_eq_iff)
  then show ?thesis by (simp add: py_mod_def)
qed

lemma get_quadrant_cases:
  "get_quadrant phi = 1 \<or> get_quadrant phi = 2 \<or> get_quadrant phi = 3 \<or> get_quadrant phi = 4"
  by (simp add: get_quadrant_def Let_def)

lemma get_quadrant_new_cases:
  "get_quadrant_new phi = 1 \<or> get_quadrant_new phi = 2 \<or> get_quadrant_new phi = 3
     \<or> get_quadrant_new phi = 4"
  by (simp add: get_quadrant_new_def Let_def)

text \<open>
  C2. \<^verbatim>\<open>get_quadrant\<close> of \<^verbatim>\<open>Effective_Area_Calculation.py\<close> puts the remainder of the
  angle modulo 360 in quadrant 1 exactly on [0, 90), in quadrant 2 exactly on [90, 180),
  in quadrant 3 exactly on [180, 270] and in quadrant 4 exactly on (270, 360); 270 is in
  quadrant 3. The other code path, \<^verbatim>\<open>get_quadrant\<close> of
  \<^verbatim>\<open>analysis/ABmag_SolarPhaseAngle_new.py\<close>, has quadrant 3 half open, [180, 270), and
  puts 270 in quadrant 4.
\<close>

theorem get_quadrant_classification:
  "(get_quadrant phi_deg = 1 \<longleftrightarrow> 0 \<le> py_mod phi_deg 360 \<and> py_mod phi_deg 360 < 90) \<and>
   (get_quadrant phi_deg = 2 \<longleftrightarrow> 90 \<le> py_mod phi_deg 360 \<and> py_mod phi_deg 360 < 180) \<and>
   (get_quadrant phi_deg = 3 \<longleftrightarrow> 180 \<le> py_mod phi_deg 360 \<and> py_mod phi_deg 360 \<le> 270) \<and>
   (get_quadrant phi_deg = 4 \<longleftrightarrow> 270 < py_mod phi_deg 360 \<and> py_mod phi_deg 360 < 360) \<and>
   get_quadrant 270 = 3 \<and>
   (get_quadrant_new phi_deg = 3 \<longleftrightarrow> 180 \<le> py_mod phi_deg 360 \<and> py_mod phi_deg 360 < 270) \<and>
   (get_quadrant_new phi_deg = 4 \<longleftrightarrow> 270 \<le> py_mod phi_deg 360 \<and> py_mod phi_deg 360 < 360) \<and>
   get_quadrant_new 270 = 4"
proof -
  have r: "0 \<le> py_mod phi_deg 360 \<and> py_mod phi_deg 360 < 360"
    using py_mod_range [of 360 phi_deg] by simp
  have m: "py_mod 270 360 = 270" by (rule py_mod_small) simp_all
  show ?thesis using r m by (auto simp add: get_quadrant_def get_quadrant_new_def Let_def)
qed

section \<open>Direction vectors to angles\<close>

lemma abs_component_le_norm:
  fixes x y z :: real
  shows "\<bar>z\<bar> \<le> sqrt (x\<^sup>2 + y\<^sup>2 + z\<^sup>2)"
proof -
  have "z\<^sup>2 \<le> x\<^sup>2 + y\<^sup>2 + z\<^sup>2" by simp
  then have "sqrt (z\<^sup>2) \<le> sqrt (x\<^sup>2 + y\<^sup>2 + z\<^sup>2)" by (rule real_sqrt_le_mono)
  then show ?thesis by simp
qed

lemma unit_component:
  fixes x y z :: real
  assumes "sqrt (x\<^sup>2 + y\<^sup>2 + z\<^sup>2) \<noteq> 0"
  shows "- 1 \<le> z / sqrt (x\<^sup>2 + y\<^sup>2 + z\<^sup>2) \<and> z / sqrt (x\<^sup>2 + y\<^sup>2 + z\<^sup>2) \<le> 1"
proof -
  let ?n = "sqrt (x\<^sup>2 + y\<^sup>2 + z\<^sup>2)"
  have n: "0 < ?n" using assms by (simp add: less_le)
  have a: "\<bar>z\<bar> \<le> ?n" by (rule abs_component_le_norm)
  from a have "z \<le> 1 * ?n" and "- 1 * ?n \<le> z" by linarith+
  with n show ?thesis by (simp only: pos_le_divide_eq pos_divide_le_eq) 
qed

lemma zero_cosine_on_axis:
  fixes x y z :: real
  assumes n: "sqrt (x\<^sup>2 + y\<^sup>2 + z\<^sup>2) \<noteq> 0"
    and c: "cos (arcsin (z / sqrt (x\<^sup>2 + y\<^sup>2 + z\<^sup>2))) = 0"
  shows "x = 0 \<and> y = 0"
proof -
  let ?n = "sqrt (x\<^sup>2 + y\<^sup>2 + z\<^sup>2)"
  have np: "0 < ?n" using n by (simp add: less_le)
  have b: "- 1 \<le> z / ?n \<and> z / ?n \<le> 1" by (rule unit_component [OF n])
  then have "cos (arcsin (z / ?n)) = sqrt (1 - (z / ?n)\<^sup>2)"
    by (intro cos_arcsin) (simp_all only:)
  with c have "1 - (z / ?n)\<^sup>2 = 0" by simp
  then have "(z / ?n)\<^sup>2 = 1" by simp
  then have "z\<^sup>2 = ?n\<^sup>2" using np by (simp add: power_divide)
  also have "?n\<^sup>2 = x\<^sup>2 + y\<^sup>2 + z\<^sup>2" by (simp add: add_nonneg_nonneg)
  finally have "x\<^sup>2 + y\<^sup>2 = 0" by simp
  then show ?thesis by (simp add: sum_power2_eq_zero_iff)
qed

lemma c2s_west: "cartesian_to_spherical (- 1) 0 0 = Inr (180, 0)"
  by (simp add: cartesian_to_spherical_def Let_def py_asin_def degrees_def isclose_def
      sin_theta_of_def py_mod_small)

lemma c2s_south: "cartesian_to_spherical 0 0 (- 1) = Inr (270, 0)"
  by (simp add: cartesian_to_spherical_def Let_def py_asin_def degrees_def isclose_def
      sin_theta_of_def py_mod_small)

section \<open>Rounding in the norm\<close>

lemma expo_subnormal:
  assumes "v \<noteq> 0" and "\<bar>v\<bar> < 1 / 2 ^ 1022"
  shows "expo v = - 1022"
proof -
  have p: "0 < \<bar>v\<bar>" using assms(1) by simp
  have "\<bar>v\<bar> < 2 powr (- 1022)" using assms(2) by (simp add: powr_minus_divide)
  then have "log 2 \<bar>v\<bar> < - 1022" using p by (simp add: log_less_iff)
  then have "\<lfloor>log 2 \<bar>v\<bar>\<rfloor> \<le> - 1022" by linarith
  then show ?thesis by (simp add: expo_def)
qed

lemma expo_normal:
  assumes "2 powr (of_int e) \<le> \<bar>v\<bar>" and "\<bar>v\<bar> < 2 powr (of_int e + 1)" and "- 1022 \<le> e"
  shows "expo v = e"
proof -
  have p: "0 < \<bar>v\<bar>" using assms(1) by (smt (verit) powr_gt_zero)
  have "of_int e \<le> log 2 \<bar>v\<bar>" using assms(1) p by (simp add: le_log_iff)
  moreover have "log 2 \<bar>v\<bar> < of_int e + 1" using assms(2) p by (simp add: log_less_iff)
  ultimately have "\<lfloor>log 2 \<bar>v\<bar>\<rfloor> = e" by linarith
  then show ?thesis using assms(3) by (simp add: expo_def)
qed

lemma round_half_even_int: "round_half_even (of_int k) = k"
  by (simp add: round_half_even_def)


lemma round_double_eval:
  assumes "v \<noteq> 0" and "expo v = e" and "u = 2 powr (of_int (e - 52))"
    and "v / u = q" and "round_half_even q = k" and "\<bar>u * of_int k\<bar> \<le> max_double"
  shows "round_double v = Fin (u * of_int k)"
proof -
  have "2 powr (of_int (expo v - 52)) = u" unfolding assms(2) assms(3) ..
  moreover have "\<not> max_double < \<bar>u * of_int k\<bar>" using assms(6) by simp
  ultimately show ?thesis
    unfolding round_double_def Let_def using assms(1,4,5) by simp
qed

lemma round_double_0: "round_double 0 = Fin 0"
  by (simp add: round_double_def)

lemma max_double_ge: "v \<le> 2 \<Longrightarrow> v \<le> max_double"
  by (simp add: max_double_def)

lemma round_half_even_low: "of_int k \<le> q \<Longrightarrow> q < of_int k + 1 / 2 \<Longrightarrow> round_half_even q = k"
proof -
  assume a: "of_int k \<le> q" "q < of_int k + 1 / 2"
  then have "\<lfloor>q\<rfloor> = k" by linarith
  with a show ?thesis by (simp add: round_half_even_def Let_def)
qed

lemma pow2_z: "round_double (33 / 2 ^ 541 * (33 / 2 ^ 541)) = Fin (1 / 2 ^ 1072)"
proof -
  let ?v = "33 / 2 ^ 541 * (33 / 2 ^ 541) :: real"
  have v: "?v = 1089 / 2 ^ 1082" by simp
  have e: "expo ?v = - 1022" by (rule expo_subnormal) simp_all
  have u: "(1 / 2 ^ 1074 :: real) = 2 powr (of_int (- 1022 - 52))" by (simp add: powr_minus_divide)
  have q: "?v / (1 / 2 ^ 1074) = 1089 / 256" by simp
  have k: "round_half_even (1089 / 256) = 4" by (rule round_half_even_low) simp_all
  have m: "\<bar>(1 / 2 ^ 1074 :: real) * of_int 4\<bar> \<le> max_double" by (rule max_double_ge) simp
  have "round_double ?v = Fin (1 / 2 ^ 1074 * of_int 4)"
    using _ e u q k m by (rule round_double_eval) simp
  then show ?thesis by simp
qed


lemma and_then_Inr: "and_then (Inr v) f = f v"
  by (simp add: and_then_def)

lemma and_then_Inl: "and_then (Inl e) f = Inl e"
  by (simp add: and_then_def)

lemma round_double_overflow:
  assumes "0 < v" and "expo v = e" and "u = 2 powr (of_int (e - 52))"
    and "v / u = q" and "round_half_even q = k" and "max_double < \<bar>u * of_int k\<bar>"
  shows "round_double v = PInf"
proof -
  have "2 powr (of_int (expo v - 52)) = u" unfolding assms(2) assms(3) ..
  then show ?thesis
    unfolding round_double_def Let_def using assms(1,4,5,6) by simp
qed

lemma sum_z: "round_double (0 + 1 / 2 ^ 1072) = Fin (1 / 2 ^ 1072)"
proof -
  let ?v = "0 + 1 / 2 ^ 1072 :: real"
  have e: "expo ?v = - 1022" by (rule expo_subnormal) simp_all
  have u: "(1 / 2 ^ 1074 :: real) = 2 powr (of_int (- 1022 - 52))" by (simp add: powr_minus_divide)
  have q: "?v / (1 / 2 ^ 1074) = 4" by simp
  have k: "round_half_even 4 = 4" by (rule round_half_even_low) simp_all
  have m: "\<bar>(1 / 2 ^ 1074 :: real) * of_int 4\<bar> \<le> max_double" by (rule max_double_ge) simp
  have "round_double ?v = Fin (1 / 2 ^ 1074 * of_int 4)"
    using _ e u q k m by (rule round_double_eval) simp
  then show ?thesis by simp
qed

lemma sqrt_z: "sqrt (1 / 2 ^ 1072) = 1 / 2 ^ 536"
proof -
  have "(1 / 2 ^ 1072 :: real) = (1 / 2 ^ 536)\<^sup>2" by (simp add: power_divide flip: power_mult)
  then show ?thesis by (simp only: real_sqrt_abs) simp
qed

lemma norm_z: "round_double (1 / 2 ^ 536) = Fin (1 / 2 ^ 536)"
proof -
  let ?v = "1 / 2 ^ 536 :: real"
  have e: "expo ?v = - 536" by (rule expo_normal) (simp_all add: powr_minus_divide)
  have u: "(1 / 2 ^ 588 :: real) = 2 powr (of_int (- 536 - 52))" by (simp add: powr_minus_divide)
  have q: "?v / (1 / 2 ^ 588) = 2 ^ 52" by simp
  have k: "round_half_even (2 ^ 52) = 2 ^ 52" by (rule round_half_even_low) simp_all
  have m: "\<bar>(1 / 2 ^ 588 :: real) * of_int (2 ^ 52)\<bar> \<le> max_double" by (rule max_double_ge) simp
  have "round_double ?v = Fin (1 / 2 ^ 588 * of_int (2 ^ 52))"
    using _ e u q k m by (rule round_double_eval) simp
  then show ?thesis by simp
qed

lemma quotient_z: "round_double (33 / 2 ^ 541 / (1 / 2 ^ 536)) = Fin (33 / 32)"
proof -
  let ?v = "33 / 2 ^ 541 / (1 / 2 ^ 536) :: real"
  have v: "?v = 33 / 32" by simp
  have e: "expo ?v = 0" by (rule expo_normal) simp_all
  have u: "(1 / 2 ^ 52 :: real) = 2 powr (of_int (0 - 52))" by (simp add: powr_minus_divide)
  have q: "?v / (1 / 2 ^ 52) = 33 * 2 ^ 47" by simp
  have k: "round_half_even (33 * 2 ^ 47) = 33 * 2 ^ 47" by (rule round_half_even_low) simp_all
  have m: "\<bar>(1 / 2 ^ 52 :: real) * of_int (33 * 2 ^ 47)\<bar> \<le> max_double" by (rule max_double_ge) simp
  have "round_double ?v = Fin (1 / 2 ^ 52 * of_int (33 * 2 ^ 47))"
    using _ e u q k m by (rule round_double_eval) simp
  then show ?thesis by simp
qed

lemma pow2_big: "round_double (2 ^ 600 * 2 ^ 600) = PInf"
proof -
  let ?v = "2 ^ 600 * 2 ^ 600 :: real"
  have e: "expo ?v = 1200" by (rule expo_normal) simp_all
  have u: "(2 ^ 1148 :: real) = 2 powr (of_int (1200 - 52))" by simp
  have q: "?v / 2 ^ 1148 = 2 ^ 52" by simp
  have k: "round_half_even (2 ^ 52) = 2 ^ 52" by (rule round_half_even_low) simp_all
  have m: "max_double < \<bar>(2 ^ 1148 :: real) * of_int (2 ^ 52)\<bar>" by (simp add: max_double_def)
  show ?thesis using _ e u q k m by (rule round_double_overflow) simp
qed

text \<open>
  C9. The vector of length 0 gets the pair (0, 0), but the function does raise: for the
  doubles 0, 0 and \<open>33 / 2 ^ 541\<close> the square of z is rounded down, to 4 units of
  \<open>2 powr -1074\<close>, the norm \<open>1 / 2 ^ 536\<close> is smaller than z, the quotient is
  \<open>33 / 32\<close> and \<^verbatim>\<open>math.asin\<close> raises \<^verbatim>\<open>ValueError\<close>; for \<open>2 ^ 600\<close>, 0 and 0 the
  square overflows and \<^verbatim>\<open>x**2\<close> raises \<^verbatim>\<open>OverflowError\<close>.
\<close>

theorem cartesian_to_spherical_raises:
  "cartesian_to_spherical_head 0 0 0 = Inr Sentinel \<and>
   cartesian_to_spherical_head 0 0 (33 / 2 ^ 541) = Inl ValueError \<and>
   cartesian_to_spherical_head (2 ^ 600) 0 0 = Inl OverflowError"
proof (intro conjI)
  have z: "double_pow2 0 = Inr 0" by (simp add: double_pow2_def round_double_0)
  have a1: "double_add (Fin 0) (Fin 0) = Fin 0" by (simp add: round_double_0)
  have s0: "double_sqrt (Fin 0) = Inr (Fin 0)" by (simp add: round_double_0)
  show "cartesian_to_spherical_head 0 0 0 = Inr Sentinel"
    by (simp only: cartesian_to_spherical_head_def z and_then_Inr a1 s0 refl if_True)
  have p: "double_pow2 (33 / 2 ^ 541) = Inr (1 / 2 ^ 1072)"
    by (simp only: double_pow2_def pow2_z fl.case)
  have a2: "double_add (Fin 0) (Fin (1 / 2 ^ 1072)) = Fin (1 / 2 ^ 1072)"
    by (simp only: double_add.simps sum_z)
  have "\<not> (1 / 2 ^ 1072 :: real) < 0" by simp
  then have s: "double_sqrt (Fin (1 / 2 ^ 1072)) = Inr (Fin (1 / 2 ^ 536))"
    by (simp only: double_sqrt.simps if_False sqrt_z norm_z)
  have n: "double_sqrt (double_add (double_add (Fin 0) (Fin 0)) (Fin (1 / 2 ^ 1072))) =
      Inr (Fin (1 / 2 ^ 536))"
    by (simp only: a1 a2 s)
  have nz: "(Fin (1 / 2 ^ 536) = Fin 0) = False" by simp
  have d0: "double_div 0 (Fin (1 / 2 ^ 536)) = Inr (Fin 0)" by (simp add: round_double_0)
  have dz: "double_div (33 / 2 ^ 541) (Fin (1 / 2 ^ 536)) = Inr (Fin (33 / 32))"
    by (simp only: double_div.simps quotient_z) simp
  have ok: "double_asin_ok (Fin (33 / 32)) = False" by simp
  show "cartesian_to_spherical_head 0 0 (33 / 2 ^ 541) = Inl ValueError"
    by (simp only: cartesian_to_spherical_head_def z p and_then_Inr n nz if_False d0 dz ok)
  have b: "double_pow2 (2 ^ 600) = Inl OverflowError"
    by (simp only: double_pow2_def pow2_big fl.case)
  show "cartesian_to_spherical_head (2 ^ 600) 0 0 = Inl OverflowError"
    by (simp only: cartesian_to_spherical_head_def b and_then_Inl)
qed

section \<open>Evaluating at numerals\<close>

lemma q_eval: "get_quadrant 45 = 1" "get_quadrant 10 = 1" "get_quadrant 135 = 2" "get_quadrant 200 = 3" "get_quadrant 250 = 3"
  "get_quadrant 280 = 4" "get_quadrant_new 180 = 3" "get_quadrant_new 270 = 4" "get_quadrant 270 = 3"
  "get_quadrant 180 = 3" "get_quadrant_new 45 = 1" "get_quadrant_new 280 = 4"
  by (simp_all add: get_quadrant_def get_quadrant_new_def py_mod_small)

lemma init_default:
  "self_L (init None None None) = 13 / 10" "self_D (init None None None) = 28 / 10"
  "self_H (init None None None) = 81 / 10" "self_A_SA (init None None None) = 2268 / 100"
  "self_A_chassis (init None None None) = 364 / 100"
  by (simp_all add: init_def CONFIG_def)

lemma c2s_west2: "cartesian_to_spherical (- 2) 0 0 = Inr (180, 0)"
  by (simp add: cartesian_to_spherical_def Let_def py_asin_def degrees_def isclose_def
      sin_theta_of_def py_mod_small)

theorem get_quadrant_classification_witness:
  "get_quadrant 200 = 3 \<and> py_mod 200 360 = 200 \<and> get_quadrant 270 = 3 \<and> get_quadrant_new 270 = 4"
  using get_quadrant_classification [of 200] by (simp add: py_mod_small)

section \<open>The case table\<close>

lemma case_determination_table:
  assumes "quad_i = 1 \<or> quad_i = 2 \<or> quad_i = 3 \<or> quad_i = 4"
  shows "case_determination quad_i quad_o special self =
     effective_area_table (quad_i, quad_o) special (self_A_SA self) (self_A_chassis self)"
  using assms
  by (auto simp add: case_determination_def effective_area_table_def split: sum.splits)

lemma quadrant_pair_cases:
  assumes "a = 1 \<or> a = 2 \<or> a = 3 \<or> a = (4::nat)" and "b = 1 \<or> b = 2 \<or> b = 3 \<or> b = (4::nat)"
  shows "(a, b) \<in> {(1, 1), (1, 2), (2, 1), (2, 2), (3, 1), (3, 2), (4, 1), (4, 2),
          (1, 3), (1, 4), (2, 3), (2, 4), (3, 3), (3, 4), (4, 3), (4, 4)}"
  using assms by auto

lemma table_unlisted:
  assumes "q \<in> {(1, 1), (1, 2), (2, 1), (2, 2), (3, 1), (3, 2), (4, 1), (4, 2)}"
  shows "effective_area_table q special A_SA A_chassis = Inr (0, 0)"
  using assms by (auto simp add: effective_area_table_def)

lemma case_determination_not_special:
  assumes "(quad_i, quad_o) \<notin> {(1, 4), (4, 4)}"
  shows "case_determination quad_i quad_o special self = case_determination quad_i quad_o special' self"
  using assms by (auto simp add: case_determination_def)

text \<open>
  C1. \<^verbatim>\<open>calculate_effective_area\<close> returns the row of the case table for the pair of
  quadrants of \<open>phi_i\<close> and \<open>phi_o\<close>; the pair is one of the sixteen pairs of quadrants 1
  to 4, and on each of the eight pairs without a row the result is (0, 0). The first
  three parts are about \<^verbatim>\<open>Effective_Area_Calculation.py\<close>; the last one is the same table
  for \<^verbatim>\<open>analysis/ABmag_SolarPhaseAngle_new.py\<close>, keyed by the quadrants of the converted
  angles.
\<close>

theorem calculate_effective_area_case_table:
  "calculate_effective_area g self phi_i theta_i phi_o theta_o =
     effective_area_table (get_quadrant phi_i, get_quadrant phi_o)
       (calculate_special_case g self phi_i theta_i phi_o theta_o)
       (self_A_SA self) (self_A_chassis self) \<and>
   ((get_quadrant phi_i, get_quadrant phi_o)
      \<in> {(1, 1), (1, 2), (2, 1), (2, 2), (3, 1), (3, 2), (4, 1), (4, 2)}
    \<longrightarrow> calculate_effective_area g self phi_i theta_i phi_o theta_o = Inr (0, 0)) \<and>
   (get_quadrant phi_i, get_quadrant phi_o)
      \<in> {(1, 1), (1, 2), (2, 1), (2, 2), (3, 1), (3, 2), (4, 1), (4, 2),
          (1, 3), (1, 4), (2, 3), (2, 4), (3, 3), (3, 4), (4, 3), (4, 4)} \<and>
   (cartesian_to_spherical xi yi zi = Inr (a_i, b_i) \<and>
    cartesian_to_spherical xo yo zo = Inr (a_o, b_o) \<longrightarrow>
      calculate_effective_area_new g self xi yi zi xo yo zo =
        effective_area_table (get_quadrant_new a_i, get_quadrant_new a_o)
          (calculate_special_case_new g self a_i b_i a_o b_o)
          (self_A_SA self) (self_A_chassis self) \<and>
      (get_quadrant_new a_i, get_quadrant_new a_o)
        \<in> {(1, 1), (1, 2), (2, 1), (2, 2), (3, 1), (3, 2), (4, 1), (4, 2),
            (1, 3), (1, 4), (2, 3), (2, 4), (3, 3), (3, 4), (4, 3), (4, 4)})"
proof -
  have t: "calculate_effective_area g self phi_i theta_i phi_o theta_o =
     effective_area_table (get_quadrant phi_i, get_quadrant phi_o)
       (calculate_special_case g self phi_i theta_i phi_o theta_o)
       (self_A_SA self) (self_A_chassis self)"
    unfolding calculate_effective_area_def
    by (rule case_determination_table) (rule get_quadrant_cases)
  have u: "(get_quadrant phi_i, get_quadrant phi_o)
      \<in> {(1, 1), (1, 2), (2, 1), (2, 2), (3, 1), (3, 2), (4, 1), (4, 2)}
    \<longrightarrow> calculate_effective_area g self phi_i theta_i phi_o theta_o = Inr (0, 0)"
    unfolding t by (rule impI) (rule table_unlisted)
  have p: "(get_quadrant phi_i, get_quadrant phi_o)
      \<in> {(1, 1), (1, 2), (2, 1), (2, 2), (3, 1), (3, 2), (4, 1), (4, 2),
          (1, 3), (1, 4), (2, 3), (2, 4), (3, 3), (3, 4), (4, 3), (4, 4)}"
    by (rule quadrant_pair_cases) (rule get_quadrant_cases)+
  have n: "cartesian_to_spherical xi yi zi = Inr (a_i, b_i) \<and>
    cartesian_to_spherical xo yo zo = Inr (a_o, b_o) \<longrightarrow>
      calculate_effective_area_new g self xi yi zi xo yo zo =
        effective_area_table (get_quadrant_new a_i, get_quadrant_new a_o)
          (calculate_special_case_new g self a_i b_i a_o b_o)
          (self_A_SA self) (self_A_chassis self) \<and>
      (get_quadrant_new a_i, get_quadrant_new a_o)
        \<in> {(1, 1), (1, 2), (2, 1), (2, 2), (3, 1), (3, 2), (4, 1), (4, 2),
            (1, 3), (1, 4), (2, 3), (2, 4), (3, 3), (3, 4), (4, 3), (4, 4)}"
  proof (intro impI conjI)
    assume c: "cartesian_to_spherical xi yi zi = Inr (a_i, b_i) \<and>
      cartesian_to_spherical xo yo zo = Inr (a_o, b_o)"
    then show "calculate_effective_area_new g self xi yi zi xo yo zo =
        effective_area_table (get_quadrant_new a_i, get_quadrant_new a_o)
          (calculate_special_case_new g self a_i b_i a_o b_o)
          (self_A_SA self) (self_A_chassis self)"
      using case_determination_table [OF get_quadrant_new_cases [of a_i]]
      by (simp add: calculate_effective_area_new_def)
    show "(get_quadrant_new a_i, get_quadrant_new a_o)
        \<in> {(1, 1), (1, 2), (2, 1), (2, 2), (3, 1), (3, 2), (4, 1), (4, 2),
            (1, 3), (1, 4), (2, 3), (2, 4), (3, 3), (3, 4), (4, 3), (4, 4)}"
      by (rule quadrant_pair_cases) (rule get_quadrant_new_cases)+
  qed
  from t u p n show ?thesis by (intro conjI)
qed

theorem calculate_effective_area_case_table_witness:
  "calculate_effective_area chain_geometry (init None None None) 135 45 200 (- 45) = Inr (2268 / 100, 0) \<and>
   calculate_effective_area chain_geometry (init None None None) 200 0 135 0 = Inr (0, 0) \<and>
   calculate_effective_area_new chain_geometry (init None None None) (- 1) 0 0 0 0 (- 1) = Inr (0, 364 / 100)"
  using calculate_effective_area_case_table [of chain_geometry "init None None None" 135 45 200 "- 45"]
    calculate_effective_area_case_table [of chain_geometry "init None None None" 200 0 135 0
       "- 1" 0 0 180 0 0 0 "- 1" 270 0]
  by (simp add: q_eval effective_area_table_def init_default c2s_west c2s_south)

text \<open>
  C10. Two inputs with the same pair of quadrants, other than (1, 4) and (4, 4), get the
  same result: the angles \<open>theta\<close> and the place of \<open>phi\<close> in its quadrant do not count.
  The second part says the same of the variant that takes direction vectors.
\<close>

theorem effective_area_depends_on_quadrants:
  "(get_quadrant phi_i = get_quadrant phi_i' \<and> get_quadrant phi_o = get_quadrant phi_o' \<and>
    (get_quadrant phi_i, get_quadrant phi_o) \<notin> {(1, 4), (4, 4)} \<longrightarrow>
      calculate_effective_area g self phi_i theta_i phi_o theta_o =
      calculate_effective_area g self phi_i' theta_i' phi_o' theta_o') \<and>
   (cartesian_to_spherical xi yi zi = Inr (a_i, b_i) \<and>
    cartesian_to_spherical xo yo zo = Inr (a_o, b_o) \<and>
    cartesian_to_spherical xi' yi' zi' = Inr (a_i', b_i') \<and>
    cartesian_to_spherical xo' yo' zo' = Inr (a_o', b_o') \<and>
    get_quadrant_new a_i = get_quadrant_new a_i' \<and> get_quadrant_new a_o = get_quadrant_new a_o' \<and>
    (get_quadrant_new a_i, get_quadrant_new a_o) \<notin> {(1, 4), (4, 4)} \<longrightarrow>
      calculate_effective_area_new g self xi yi zi xo yo zo =
      calculate_effective_area_new g self xi' yi' zi' xo' yo' zo')"
proof (intro conjI impI)
  assume a: "get_quadrant phi_i = get_quadrant phi_i' \<and> get_quadrant phi_o = get_quadrant phi_o' \<and>
    (get_quadrant phi_i, get_quadrant phi_o) \<notin> {(1, 4), (4, 4)}"
  then have e: "get_quadrant phi_i = get_quadrant phi_i'" "get_quadrant phi_o = get_quadrant phi_o'"
    and ns: "(get_quadrant phi_i, get_quadrant phi_o) \<notin> {(1, 4), (4, 4)}"
    by blast+
  have "case_determination (get_quadrant phi_i) (get_quadrant phi_o)
          (calculate_special_case g self phi_i theta_i phi_o theta_o) self =
        case_determination (get_quadrant phi_i) (get_quadrant phi_o)
          (calculate_special_case g self phi_i' theta_i' phi_o' theta_o') self"
    by (rule case_determination_not_special [OF ns])
  then show "calculate_effective_area g self phi_i theta_i phi_o theta_o =
      calculate_effective_area g self phi_i' theta_i' phi_o' theta_o'"
    by (simp add: calculate_effective_area_def e)
next
  assume a: "cartesian_to_spherical xi yi zi = Inr (a_i, b_i) \<and>
    cartesian_to_spherical xo yo zo = Inr (a_o, b_o) \<and>
    cartesian_to_spherical xi' yi' zi' = Inr (a_i', b_i') \<and>
    cartesian_to_spherical xo' yo' zo' = Inr (a_o', b_o') \<and>
    get_quadrant_new a_i = get_quadrant_new a_i' \<and> get_quadrant_new a_o = get_quadrant_new a_o' \<and>
    (get_quadrant_new a_i, get_quadrant_new a_o) \<notin> {(1, 4), (4, 4)}"
  then have c: "cartesian_to_spherical xi yi zi = Inr (a_i, b_i)"
      "cartesian_to_spherical xo yo zo = Inr (a_o, b_o)"
      "cartesian_to_spherical xi' yi' zi' = Inr (a_i', b_i')"
      "cartesian_to_spherical xo' yo' zo' = Inr (a_o', b_o')"
    and e: "get_quadrant_new a_i = get_quadrant_new a_i'" "get_quadrant_new a_o = get_quadrant_new a_o'"
    and ns: "(get_quadrant_new a_i, get_quadrant_new a_o) \<notin> {(1, 4), (4, 4)}"
    by blast+
  have "case_determination (get_quadrant_new a_i) (get_quadrant_new a_o)
          (calculate_special_case_new g self a_i b_i a_o b_o) self =
        case_determination (get_quadrant_new a_i) (get_quadrant_new a_o)
          (calculate_special_case_new g self a_i' b_i' a_o' b_o') self"
    by (rule case_determination_not_special [OF ns])
  then show "calculate_effective_area_new g self xi yi zi xo yo zo =
      calculate_effective_area_new g self xi' yi' zi' xo' yo' zo'"
    by (simp add: calculate_effective_area_new_def c e)
qed

theorem effective_area_depends_on_quadrants_witness:
  "get_quadrant 45 = get_quadrant 10 \<and> get_quadrant 200 = get_quadrant 250 \<and>
   (get_quadrant 45, get_quadrant 200) \<notin> {(1, 4), (4, 4)} \<and>
   calculate_effective_area chain_geometry (init None None None) 45 (- 30) 200 30 =
   calculate_effective_area chain_geometry (init None None None) 10 5 250 70 \<and>
   calculate_effective_area_new chain_geometry (init None None None) (- 1) 0 0 0 0 (- 1) =
   calculate_effective_area_new chain_geometry (init None None None) (- 2) 0 0 0 0 (- 1)"
  using effective_area_depends_on_quadrants [of 45 10 200 250 chain_geometry "init None None None"
      "- 30" 30 5 70 "- 1" 0 0 180 0 0 0 "- 1" 270 0 "- 2" 0 0 180 0 0 0 "- 1" 270 0]
  by (simp add: q_eval c2s_west c2s_west2 c2s_south)

section \<open>The special case\<close>

text \<open>
  C4. On the quadrant pairs (1, 4) and (4, 4), \<^verbatim>\<open>calculate_special_case\<close> gives the
  non-shadow area of \<^verbatim>\<open>calculate_combined_non_shadow\<close> at \<open>phi_i_adj\<close>, \<open>theta_i\<close>,
  \<open>phi_o - 270\<close>, \<open>theta_o\<close>, where \<open>phi_i_adj\<close> is 0 in quadrant 1 and \<open>phi_i - 270\<close>
  in quadrant 4; an error of the combined computation is passed on. Both files.
\<close>

theorem special_case_remap:
  assumes "(get_quadrant phi_i, get_quadrant phi_o) \<in> {(1, 4), (4, 4)}"
    and "(get_quadrant_new phi_i', get_quadrant_new phi_o') \<in> {(1, 4), (4, 4)}"
  shows "(get_quadrant phi_i = 1 \<longrightarrow>
            calculate_special_case g self phi_i theta_i phi_o theta_o =
            map_sum id fst (calculate_combined_non_shadow g self 0 theta_i (phi_o - 270) theta_o)) \<and>
         (get_quadrant phi_i = 4 \<longrightarrow>
            calculate_special_case g self phi_i theta_i phi_o theta_o =
            map_sum id fst
              (calculate_combined_non_shadow g self (phi_i - 270) theta_i (phi_o - 270) theta_o)) \<and>
         (get_quadrant_new phi_i' = 1 \<longrightarrow>
            calculate_special_case_new g self phi_i' theta_i phi_o' theta_o =
            map_sum id fst (calculate_combined_non_shadow_new g self 0 theta_i (phi_o' - 270) theta_o)) \<and>
         (get_quadrant_new phi_i' = 4 \<longrightarrow>
            calculate_special_case_new g self phi_i' theta_i phi_o' theta_o =
            map_sum id fst
              (calculate_combined_non_shadow_new g self (phi_i' - 270) theta_i (phi_o' - 270) theta_o))"
  by (auto simp add: calculate_special_case_def calculate_special_case_new_def Let_def
      split: sum.splits)

theorem special_case_remap_witness:
  "(get_quadrant 45, get_quadrant 280) \<in> {(1, 4), (4, 4)} \<and>
   (get_quadrant_new 45, get_quadrant_new 280) \<in> {(1, 4), (4, 4)} \<and>
   calculate_special_case chain_geometry (init None None None) 45 (- 30) 280 30 =
   map_sum id fst
     (calculate_combined_non_shadow chain_geometry (init None None None) 0 (- 30) (280 - 270) 30) \<and>
   calculate_special_case_new chain_geometry (init None None None) 45 (- 30) 280 30 =
   map_sum id fst
     (calculate_combined_non_shadow_new chain_geometry (init None None None) 0 (- 30) (280 - 270) 30) \<and>
   (get_quadrant 280, get_quadrant 280) \<in> {(1, 4), (4, 4)} \<and>
   (get_quadrant_new 280, get_quadrant_new 280) \<in> {(1, 4), (4, 4)} \<and>
   calculate_special_case chain_geometry (init None None None) 280 15 280 (- 30) =
   map_sum id fst
     (calculate_combined_non_shadow chain_geometry (init None None None) (280 - 270) 15 (280 - 270) (- 30))"
  using special_case_remap [of 45 280 45 280 chain_geometry "init None None None" "- 30" 30]
    special_case_remap [of 280 280 280 280 chain_geometry "init None None None" 15 "- 30"]
  by (simp add: q_eval)

section \<open>Vertical light\<close>

lemma solar_array_rect_rect: "solar_array_rect self = rect (self_D self) (self_H self)"
  by (simp add: solar_array_rect_def rect_def)

lemma vertical_shadow_rect: "vertical_shadow self = rect (self_D self) (self_L self)"
  by (simp add: vertical_shadow_def rect_def)

lemma isclose_within:
  assumes "\<bar>a - b\<bar> \<le> t"
  shows "isclose a b t"
proof -
  have "t \<le> max ((1 / 10 ^ 9) * max \<bar>a\<bar> \<bar>b\<bar>) t" by simp
  with assms show ?thesis unfolding isclose_def by linarith
qed

lemma clip_vertical:
  assumes g: "intersects_rectangles g"
    and pos: "0 < self_L self" "0 < self_D self" "0 < self_H self"
  shows "\<exists>vertices. clip_to_array g self (Polygon g (vertical_shadow self)) =
           Inr (vertices, self_D self * min (self_L self) (self_H self))"
proof -
  let ?r = "intersection g (Polygon g (rect (self_D self) (self_L self)))
              (Polygon g (rect (self_D self) (self_H self)))"
  from g pos have r: "\<not> is_empty g ?r \<and> exterior_coords g ?r \<noteq> None \<and>
      area g ?r = self_D self * min (self_L self) (self_H self)"
    unfolding intersects_rectangles_def Let_def by blast
  then obtain vs where vs: "exterior_coords g ?r = Some vs" by blast
  with r show ?thesis
    by (simp add: clip_to_array_def solar_array_rect_rect vertical_shadow_rect)
qed

lemma ring_area_rect: "0 \<le> w \<Longrightarrow> 0 \<le> h \<Longrightarrow> ring_area (rect w h) = w * h"
  by (simp add: ring_area_def rect_def)

lemma ring_area_ring:
  "0 \<le> a \<Longrightarrow>
   ring_area [(Fin 0, Fin 0), (Fin 1, Fin 0), (Fin 1, Fin a), (Fin 0, Fin a), (Fin 0, Fin 0)] = a"
  by (simp add: ring_area_def)

lemma chain_fields:
  "Polygon chain_geometry = ring_area" "intersection chain_geometry = min"
  "unary_union chain_geometry = (\<lambda>gs. fold max gs 0)"
  "difference chain_geometry = (\<lambda>a b. a - min a b)"
  "is_empty chain_geometry = (\<lambda>a. a \<le> 0)"
  "exterior_coords chain_geometry =
     (\<lambda>a. Some [(Fin 0, Fin 0), (Fin 1, Fin 0), (Fin 1, Fin a), (Fin 0, Fin a), (Fin 0, Fin 0)])"
  "has_area chain_geometry = (\<lambda>a. True)" "area chain_geometry = (\<lambda>a. a)"
  by (simp_all add: chain_geometry_def)

lemma chain_measures_rectangles: "measures_rectangles chain_geometry"
  by (simp add: measures_rectangles_def chain_fields ring_area_rect)

lemma chain_intersects_rectangles: "intersects_rectangles chain_geometry"
  unfolding intersects_rectangles_def Let_def
proof (intro allI impI)
  fix w h1 h2 :: real
  assume p: "0 < w \<and> 0 < h1 \<and> 0 < h2"
  then have m: "min (w * h1) (w * h2) = w * min h1 h2" by (simp add: min_def)
  from p have "0 < w * min h1 h2" by (simp add: min_def)
  then have "\<not> w * min h1 h2 \<le> 0" by (simp only: not_le)
  with p m show "\<not> is_empty chain_geometry
        (intersection chain_geometry (Polygon chain_geometry (rect w h1))
           (Polygon chain_geometry (rect w h2))) \<and>
      exterior_coords chain_geometry
        (intersection chain_geometry (Polygon chain_geometry (rect w h1))
           (Polygon chain_geometry (rect w h2))) \<noteq> None \<and>
      area chain_geometry
        (intersection chain_geometry (Polygon chain_geometry (rect w h1))
           (Polygon chain_geometry (rect w h2))) = w * min h1 h2"
    by (simp add: chain_fields ring_area_rect)
qed

lemma chain_additive_area: "additive_area chain_geometry"
  by (simp add: additive_area_def chain_fields min.commute)

text \<open>
  C5. When \<open>phi\<close> modulo 180 is within \<^verbatim>\<open>1e-9\<close> of 90, both versions of
  \<^verbatim>\<open>calculate_shadow\<close> take the rectangle with corners (0, 0) and (D, L) as the shadow
  polygon, whatever \<open>theta\<close> is; with positive dimensions and a library that intersects
  rectangles, the area they return is D times the smaller of L and H.
\<close>

theorem vertical_light_shadow:
  assumes "\<bar>py_mod phi_deg 180 - 90\<bar> \<le> 1 / 10 ^ 9"
    and "intersects_rectangles g"
    and "0 < self_L self" "0 < self_D self" "0 < self_H self"
  shows "shadow_poly self phi_deg theta_deg = vertical_shadow self \<and>
         shadow_poly_new self phi_deg theta_deg = vertical_shadow self \<and>
         (\<exists>vertices. calculate_shadow g self phi_deg theta_deg =
            Inr (vertices, self_D self * min (self_L self) (self_H self))) \<and>
         (\<exists>vertices. calculate_shadow_new g self phi_deg theta_deg =
            Inr (vertices, self_D self * min (self_L self) (self_H self)))"
proof -
  have c: "isclose (py_mod phi_deg 180) 90 (1 / 10 ^ 9)"
    by (rule isclose_within) (rule assms(1))
  have 1: "shadow_poly self phi_deg theta_deg = vertical_shadow self"
    using c by (simp add: shadow_poly_def)
  have 2: "shadow_poly_new self phi_deg theta_deg = vertical_shadow self"
    using c by (simp add: shadow_poly_new_def)
  have 3: "\<exists>vertices. clip_to_array g self (Polygon g (vertical_shadow self)) =
           Inr (vertices, self_D self * min (self_L self) (self_H self))"
    by (rule clip_vertical) (rule assms)+
  show ?thesis using 1 2 3 by (simp add: calculate_shadow_def calculate_shadow_new_def)
qed

theorem vertical_light_shadow_witness:
  "\<bar>py_mod 90 180 - 90\<bar> \<le> 1 / 10 ^ 9 \<and>
   shadow_poly (init None None None) 90 0 = vertical_shadow (init None None None) \<and>
   (\<exists>vertices. calculate_shadow chain_geometry (init None None None) 90 0 = Inr (vertices, 364 / 100)) \<and>
   (\<exists>vertices. calculate_shadow_new chain_geometry (init None None None) 90 0 = Inr (vertices, 364 / 100))"
  using vertical_light_shadow [of 90 chain_geometry "init None None None" 0]
    chain_intersects_rectangles
  by (simp add: py_mod_small init_default)

section \<open>The area outside both shadows\<close>

lemma combine_invariant:
  assumes a: "additive_area g" and m: "measures_rectangles g"
    and pos: "0 < self_D self" "0 < self_H self"
    and c: "combine g self v_i v_o = (non_shadow_area, combined)"
  shows "non_shadow_area + area g (intersection g combined (Polygon g (solar_array_rect self))) =
         self_D self * self_H self"
proof -
  let ?rect = "Polygon g (solar_array_rect self)"
  from c have cmb: "combined = unary_union g [Polygon g v_i, Polygon g v_o]"
    by (simp add: combine_def Let_def)
  from a have h: "has_area g (difference g ?rect combined)"
    and s: "area g (difference g ?rect combined) + area g (intersection g combined ?rect) = area g ?rect"
    unfolding additive_area_def by blast+
  from c h cmb have n: "non_shadow_area = area g (difference g ?rect combined)"
    by (simp add: combine_def Let_def)
  from m pos have "area g ?rect = self_D self * self_H self"
    unfolding measures_rectangles_def solar_array_rect_rect by blast
  with s n show ?thesis by simp
qed

lemma shadow_poly_90: "shadow_poly self 90 theta = vertical_shadow self"
  "shadow_poly_new self 90 theta = vertical_shadow self"
  by (simp_all add: shadow_poly_def shadow_poly_new_def isclose_def py_mod_small)

lemma chain_shadow_90:
  "calculate_shadow chain_geometry (init None None None) 90 0 =
     Inr ([(Fin 0, Fin 0), (Fin 1, Fin 0), (Fin 1, Fin (364 / 100)), (Fin 0, Fin (364 / 100)), (Fin 0, Fin 0)], 364 / 100)"
  by (simp add: calculate_shadow_def shadow_poly_90 clip_to_array_def chain_fields
      solar_array_rect_rect vertical_shadow_rect ring_area_rect init_default Let_def)

lemma combine_union:
  "snd (combine g self v_i v_o) = unary_union g [Polygon g v_i, Polygon g v_o]"
  by (simp add: combine_def Let_def)

lemma combine_pair:
  "combine g self v_i v_o =
     (fst (combine g self v_i v_o), unary_union g [Polygon g v_i, Polygon g v_o])"
  by (simp add: combine_def Let_def)

lemma combine_area:
  assumes a: "additive_area g" and m: "measures_rectangles g"
    and pos: "0 < self_D self" "0 < self_H self"
  shows "fst (combine g self v_i v_o) +
           area g (intersection g (unary_union g [Polygon g v_i, Polygon g v_o])
                     (Polygon g (solar_array_rect self))) =
         self_D self * self_H self"
proof -
  obtain n c where c: "combine g self v_i v_o = (n, c)" by (cases "combine g self v_i v_o")
  have u: "c = unary_union g [Polygon g v_i, Polygon g v_o]"
    using combine_union [of g self v_i v_o] c by simp
  show ?thesis using combine_invariant [OF a m pos c] c u by simp
qed

lemma ring_area_parallelogram:
  "ring_area (parallelogram self (Fin x) (Fin y)) = \<bar>self_D self * y\<bar>"
  by (simp add: ring_area_def parallelogram_def algebra_simps)

lemma radians_45_60: "radians 45 = pi / 4" "radians 60 = pi / 3"
  by (simp_all add: radians_def)

lemma shadow_poly_45_60:
  "shadow_poly (init None None None) 45 60 =
     parallelogram (init None None None) (Fin (13 / 10 * (sqrt 3 / 2))) (Fin (13 / 20))"
proof -
  have n: "\<not> isclose (py_mod 45 180) 90 (1 / 10 ^ 9)"
    by (simp add: isclose_def py_mod_small)
  show ?thesis using n
    by (simp add: shadow_poly_def Let_def radians_45_60 cot_phi_def tan_45 sin_60 cos_60 init_default)
qed

lemma chain_shadow_45_60:
  "calculate_shadow chain_geometry (init None None None) 45 60 =
     Inr ([(Fin 0, Fin 0), (Fin 1, Fin 0), (Fin 1, Fin (182 / 100)), (Fin 0, Fin (182 / 100)), (Fin 0, Fin 0)], 182 / 100)"
  by (simp add: calculate_shadow_def shadow_poly_45_60 clip_to_array_def chain_fields
      solar_array_rect_rect ring_area_rect ring_area_parallelogram init_default Let_def)

lemma chain_combined_45_90:
  "calculate_combined_non_shadow chain_geometry (init None None None) 45 60 90 0 =
     Inr (1904 / 100, 364 / 100)"
  by (simp add: calculate_combined_non_shadow_def chain_shadow_90 chain_shadow_45_60 combine_def chain_fields
      solar_array_rect_rect ring_area_rect init_default ring_area_ring Let_def)

text \<open>
  C7. With a library whose area is additive and right on rectangles: what
  \<^verbatim>\<open>calculate_combined_non_shadow\<close> returns is the union of the polygons of the two vertex
  lists that \<^verbatim>\<open>calculate_shadow\<close> produced, and a non-shadow area that adds up to D H with
  the area of the part of that union inside the solar array; it returns whenever both
  shadows are produced. The last two parts say so for any two vertex lists.
\<close>

theorem non_shadow_area_invariant:
  assumes a: "additive_area g" and m: "measures_rectangles g"
    and pos: "0 < self_D self" "0 < self_H self"
  shows "(calculate_combined_non_shadow g self phi_i theta_i phi_o theta_o = Inr (n, c) \<longrightarrow>
            (\<exists>v_i a_i v_o a_o.
               calculate_shadow g self phi_i theta_i = Inr (v_i, a_i) \<and>
               calculate_shadow g self phi_o theta_o = Inr (v_o, a_o) \<and>
               c = unary_union g [Polygon g v_i, Polygon g v_o] \<and>
               n + area g (intersection g (unary_union g [Polygon g v_i, Polygon g v_o])
                             (Polygon g (solar_array_rect self))) = self_D self * self_H self)) \<and>
         (calculate_combined_non_shadow_new g self phi_i theta_i phi_o theta_o = Inr (n', c') \<longrightarrow>
            (\<exists>v_i a_i v_o a_o.
               calculate_shadow_new g self phi_i theta_i = Inr (v_i, a_i) \<and>
               calculate_shadow_new g self phi_o theta_o = Inr (v_o, a_o) \<and>
               c' = unary_union g [Polygon g v_i, Polygon g v_o] \<and>
               n' + area g (intersection g (unary_union g [Polygon g v_i, Polygon g v_o])
                              (Polygon g (solar_array_rect self))) = self_D self * self_H self)) \<and>
         (calculate_shadow g self phi_i theta_i = Inr (w_i, b_i) \<and>
          calculate_shadow g self phi_o theta_o = Inr (w_o, b_o) \<longrightarrow>
            (\<exists>k. calculate_combined_non_shadow g self phi_i theta_i phi_o theta_o =
                    Inr (k, unary_union g [Polygon g w_i, Polygon g w_o]) \<and>
                  k + area g (intersection g (unary_union g [Polygon g w_i, Polygon g w_o])
                             (Polygon g (solar_array_rect self))) = self_D self * self_H self)) \<and>
         (calculate_shadow_new g self phi_i theta_i = Inr (w_i', b_i') \<and>
          calculate_shadow_new g self phi_o theta_o = Inr (w_o', b_o') \<longrightarrow>
            (\<exists>k. calculate_combined_non_shadow_new g self phi_i theta_i phi_o theta_o =
                    Inr (k, unary_union g [Polygon g w_i', Polygon g w_o']) \<and>
                  k + area g (intersection g (unary_union g [Polygon g w_i', Polygon g w_o'])
                             (Polygon g (solar_array_rect self))) = self_D self * self_H self)) \<and>
         snd (combine g self v v') = unary_union g [Polygon g v, Polygon g v'] \<and>
         fst (combine g self v v') +
           area g (intersection g (unary_union g [Polygon g v, Polygon g v'])
                     (Polygon g (solar_array_rect self))) = self_D self * self_H self"
proof (intro conjI impI)
  assume r: "calculate_combined_non_shadow g self phi_i theta_i phi_o theta_o = Inr (n, c)"
  then obtain v_i a_i v_o a_o where s: "calculate_shadow g self phi_i theta_i = Inr (v_i, a_i)"
      "calculate_shadow g self phi_o theta_o = Inr (v_o, a_o)"
    and k: "combine g self v_i v_o = (n, c)"
    by (auto simp add: calculate_combined_non_shadow_def split: sum.splits)
  from k have u: "c = unary_union g [Polygon g v_i, Polygon g v_o]"
    using combine_union [of g self v_i v_o] by simp
  from k have "n + area g (intersection g (unary_union g [Polygon g v_i, Polygon g v_o])
                 (Polygon g (solar_array_rect self))) = self_D self * self_H self"
    using combine_area [OF a m pos, of v_i v_o] by simp
  with s u show "\<exists>v_i a_i v_o a_o.
               calculate_shadow g self phi_i theta_i = Inr (v_i, a_i) \<and>
               calculate_shadow g self phi_o theta_o = Inr (v_o, a_o) \<and>
               c = unary_union g [Polygon g v_i, Polygon g v_o] \<and>
               n + area g (intersection g (unary_union g [Polygon g v_i, Polygon g v_o])
                             (Polygon g (solar_array_rect self))) = self_D self * self_H self"
    by blast
next
  assume r: "calculate_combined_non_shadow_new g self phi_i theta_i phi_o theta_o = Inr (n', c')"
  then obtain v_i a_i v_o a_o where s: "calculate_shadow_new g self phi_i theta_i = Inr (v_i, a_i)"
      "calculate_shadow_new g self phi_o theta_o = Inr (v_o, a_o)"
    and k: "combine g self v_i v_o = (n', c')"
    by (auto simp add: calculate_combined_non_shadow_new_def split: sum.splits)
  from k have u: "c' = unary_union g [Polygon g v_i, Polygon g v_o]"
    using combine_union [of g self v_i v_o] by simp
  from k have "n' + area g (intersection g (unary_union g [Polygon g v_i, Polygon g v_o])
                 (Polygon g (solar_array_rect self))) = self_D self * self_H self"
    using combine_area [OF a m pos, of v_i v_o] by simp
  with s u show "\<exists>v_i a_i v_o a_o.
               calculate_shadow_new g self phi_i theta_i = Inr (v_i, a_i) \<and>
               calculate_shadow_new g self phi_o theta_o = Inr (v_o, a_o) \<and>
               c' = unary_union g [Polygon g v_i, Polygon g v_o] \<and>
               n' + area g (intersection g (unary_union g [Polygon g v_i, Polygon g v_o])
                              (Polygon g (solar_array_rect self))) = self_D self * self_H self"
    by blast
next
  assume s: "calculate_shadow g self phi_i theta_i = Inr (w_i, b_i) \<and>
          calculate_shadow g self phi_o theta_o = Inr (w_o, b_o)"
  then have "calculate_combined_non_shadow g self phi_i theta_i phi_o theta_o =
      Inr (fst (combine g self w_i w_o), unary_union g [Polygon g w_i, Polygon g w_o])"
    using combine_pair [of g self w_i w_o] by (simp add: calculate_combined_non_shadow_def)
  then show "\<exists>k. calculate_combined_non_shadow g self phi_i theta_i phi_o theta_o =
                    Inr (k, unary_union g [Polygon g w_i, Polygon g w_o]) \<and>
                  k + area g (intersection g (unary_union g [Polygon g w_i, Polygon g w_o])
                             (Polygon g (solar_array_rect self))) = self_D self * self_H self"
    using combine_area [OF a m pos, of w_i w_o] by blast
next
  assume s: "calculate_shadow_new g self phi_i theta_i = Inr (w_i', b_i') \<and>
          calculate_shadow_new g self phi_o theta_o = Inr (w_o', b_o')"
  then have "calculate_combined_non_shadow_new g self phi_i theta_i phi_o theta_o =
      Inr (fst (combine g self w_i' w_o'), unary_union g [Polygon g w_i', Polygon g w_o'])"
    using combine_pair [of g self w_i' w_o'] by (simp add: calculate_combined_non_shadow_new_def)
  then show "\<exists>k. calculate_combined_non_shadow_new g self phi_i theta_i phi_o theta_o =
                    Inr (k, unary_union g [Polygon g w_i', Polygon g w_o']) \<and>
                  k + area g (intersection g (unary_union g [Polygon g w_i', Polygon g w_o'])
                             (Polygon g (solar_array_rect self))) = self_D self * self_H self"
    using combine_area [OF a m pos, of w_i' w_o'] by blast
next
  show "snd (combine g self v v') = unary_union g [Polygon g v, Polygon g v']"
    by (rule combine_union)
next
  show "fst (combine g self v v') +
           area g (intersection g (unary_union g [Polygon g v, Polygon g v'])
                     (Polygon g (solar_array_rect self))) = self_D self * self_H self"
    by (rule combine_area [OF a m pos])
qed

theorem non_shadow_area_invariant_witness:
  "calculate_shadow chain_geometry (init None None None) 45 60 =
     Inr ([(Fin 0, Fin 0), (Fin 1, Fin 0), (Fin 1, Fin (182 / 100)), (Fin 0, Fin (182 / 100)),
           (Fin 0, Fin 0)], 182 / 100) \<and>
   calculate_shadow chain_geometry (init None None None) 90 0 =
     Inr ([(Fin 0, Fin 0), (Fin 1, Fin 0), (Fin 1, Fin (364 / 100)), (Fin 0, Fin (364 / 100)),
           (Fin 0, Fin 0)], 364 / 100) \<and>
   calculate_combined_non_shadow chain_geometry (init None None None) 45 60 90 0 =
     Inr (1904 / 100, 364 / 100) \<and>
   unary_union chain_geometry
     [Polygon chain_geometry
        [(Fin 0, Fin 0), (Fin 1, Fin 0), (Fin 1, Fin (182 / 100)), (Fin 0, Fin (182 / 100)),
         (Fin 0, Fin 0)],
      Polygon chain_geometry
        [(Fin 0, Fin 0), (Fin 1, Fin 0), (Fin 1, Fin (364 / 100)), (Fin 0, Fin (364 / 100)),
         (Fin 0, Fin 0)]] = 364 / 100 \<and>
   1904 / 100 + area chain_geometry (intersection chain_geometry (364 / 100)
      (Polygon chain_geometry (solar_array_rect (init None None None)))) = 28 / 10 * (81 / 10)"
  using non_shadow_area_invariant [OF chain_additive_area chain_measures_rectangles,
      of "init None None None" 45 60 90 0 "1904 / 100" "364 / 100"]
    chain_combined_45_90 chain_shadow_45_60 chain_shadow_90
  by (simp add: init_default chain_fields ring_area_ring)

section \<open>The cotangent and the offsets\<close>



lemma cot_phi_new_high: "1 / 10 ^ 10 \<le> tan phi \<Longrightarrow> cot_phi_new phi = 1 / tan phi"
  by (simp add: cot_phi_new_def max_absorb2)

lemma offsets_new_bounded:
  "- (10 ^ 6) \<le> x_offset_new self phi theta \<and> x_offset_new self phi theta \<le> 10 ^ 6 \<and>
   - (10 ^ 6) \<le> y_offset_new self phi theta \<and> y_offset_new self phi theta \<le> 10 ^ 6"
  by (simp add: x_offset_new_def y_offset_new_def)


section \<open>The two variants of the engine\<close>

lemma get_quadrant_agree:
  assumes "py_mod phi 360 \<noteq> 270"
  shows "get_quadrant_new phi = get_quadrant phi"
  using assms by (auto simp add: get_quadrant_def get_quadrant_new_def Let_def)

lemma clamp_idle: "\<bar>v\<bar> \<le> (10 ^ 6 :: real) \<Longrightarrow> max (- (10 ^ 6)) (min (10 ^ 6) v) = v"
  by (simp add: abs_le_iff)

lemma shadow_poly_agree:
  assumes "clamps_idle self phi_deg theta_deg"
  shows "shadow_poly_new self phi_deg theta_deg = shadow_poly self phi_deg theta_deg"
proof (cases "isclose (py_mod phi_deg 180) 90 (1 / 10 ^ 9)")
  case True
  then show ?thesis by (simp add: shadow_poly_def shadow_poly_new_def)
next
  case False
  with assms have t: "1 / 10 ^ 10 \<le> tan (radians phi_deg)"
    and x: "\<bar>self_L self * (1 / tan (radians phi_deg)) * sin (radians theta_deg)\<bar> \<le> 10 ^ 6"
    and y: "\<bar>self_L self * (1 / tan (radians phi_deg)) * cos (radians theta_deg)\<bar> \<le> 10 ^ 6"
    unfolding clamps_idle_def by blast+
  from t have m: "max (1 / 10 ^ 10) (tan (radians phi_deg)) = tan (radians phi_deg)"
    by (rule max_absorb2)
  have "(0::real) < 1 / 10 ^ 10" by simp
  with t have nz: "tan (radians phi_deg) \<noteq> 0" by linarith
  have cn: "cot_phi_new (radians phi_deg) = 1 / tan (radians phi_deg)"
    unfolding cot_phi_new_def m ..
  have c: "cot_phi (radians phi_deg) = Fin (1 / tan (radians phi_deg))"
    using nz by (simp add: cot_phi_def)
  have xo: "x_offset_new self (radians phi_deg) (radians theta_deg) =
      self_L self * (1 / tan (radians phi_deg)) * sin (radians theta_deg)"
    unfolding x_offset_new_def cn by (rule clamp_idle) (rule x)
  have yo: "y_offset_new self (radians phi_deg) (radians theta_deg) =
      self_L self * (1 / tan (radians phi_deg)) * cos (radians theta_deg)"
    unfolding y_offset_new_def cn by (rule clamp_idle) (rule y)
  show ?thesis using False
    by (simp add: shadow_poly_def shadow_poly_new_def Let_def xo yo c)
qed

lemma shadow_agree:
  assumes "clamps_idle self phi_deg theta_deg"
  shows "calculate_shadow_new g self phi_deg theta_deg = calculate_shadow g self phi_deg theta_deg"
  by (simp add: calculate_shadow_new_def calculate_shadow_def shadow_poly_agree [OF assms])

lemma combined_agree:
  assumes "clamps_idle self phi_i theta_i" and "clamps_idle self phi_o theta_o"
  shows "calculate_combined_non_shadow_new g self phi_i theta_i phi_o theta_o =
         calculate_combined_non_shadow g self phi_i theta_i phi_o theta_o"
  unfolding calculate_combined_non_shadow_new_def calculate_combined_non_shadow_def
    shadow_agree [OF assms(1)] shadow_agree [OF assms(2)] ..

text \<open>
  C3, as it is stated, fails: the direction (0, 0, -1) converts to the elevation 270,
  which is quadrant 4 for \<^verbatim>\<open>analysis/ABmag_SolarPhaseAngle_new.py\<close> and quadrant 3 for
  \<^verbatim>\<open>Effective_Area_Calculation.py\<close>, and the two variants return different areas of the
  solar array.
\<close>

theorem variants_disagree_at_270:
  "cartesian_to_spherical (- 1) 0 0 = Inr (180, 0) \<and>
   cartesian_to_spherical 0 0 (- 1) = Inr (270, 0) \<and>
   calculate_effective_area_new chain_geometry (init None None None) (- 1) 0 0 0 0 (- 1) =
     Inr (0, 364 / 100) \<and>
   calculate_effective_area chain_geometry (init None None None) 180 0 270 0 =
     Inr (2268 / 100, 364 / 100) \<and>
   calculate_effective_area_new chain_geometry (init None None None) (- 1) 0 0 0 0 (- 1) \<noteq>
   calculate_effective_area chain_geometry (init None None None) 180 0 270 0"
  by (simp add: c2s_west c2s_south calculate_effective_area_new_def calculate_effective_area_def
      case_determination_def q_eval init_default)

text \<open>
  C3, amended. For direction vectors whose converted elevations are not 270, the variant
  that takes vectors returns what the variant that takes angles returns on the converted
  angles, when the quadrant pair is not (1, 4) or (4, 4), and also on the pair (4, 4) when
  the clamps change nothing at both adjusted angles.
\<close>

theorem variants_agree:
  assumes ci: "cartesian_to_spherical xi yi zi = Inr (phi_i, theta_i)"
    and co: "cartesian_to_spherical xo yo zo = Inr (phi_o, theta_o)"
    and ni: "py_mod phi_i 360 \<noteq> 270" and no: "py_mod phi_o 360 \<noteq> 270"
    and sp: "(get_quadrant phi_i, get_quadrant phi_o) \<notin> {(1, 4), (4, 4)} \<or>
             (get_quadrant phi_i = 4 \<and> get_quadrant phi_o = 4 \<and>
              clamps_idle self (phi_i - 270) theta_i \<and> clamps_idle self (phi_o - 270) theta_o)"
  shows "calculate_effective_area_new g self xi yi zi xo yo zo =
         calculate_effective_area g self phi_i theta_i phi_o theta_o"
proof -
  have qi: "get_quadrant_new phi_i = get_quadrant phi_i" by (rule get_quadrant_agree [OF ni])
  have qo: "get_quadrant_new phi_o = get_quadrant phi_o" by (rule get_quadrant_agree [OF no])
  have n: "calculate_effective_area_new g self xi yi zi xo yo zo =
      case_determination (get_quadrant phi_i) (get_quadrant phi_o)
        (calculate_special_case_new g self phi_i theta_i phi_o theta_o) self"
    by (simp add: calculate_effective_area_new_def ci co qi qo)
  from sp show ?thesis
  proof
    assume "(get_quadrant phi_i, get_quadrant phi_o) \<notin> {(1, 4), (4, 4)}"
    then have "case_determination (get_quadrant phi_i) (get_quadrant phi_o)
        (calculate_special_case_new g self phi_i theta_i phi_o theta_o) self =
      case_determination (get_quadrant phi_i) (get_quadrant phi_o)
        (calculate_special_case g self phi_i theta_i phi_o theta_o) self"
      by (rule case_determination_not_special)
    with n show ?thesis by (simp add: calculate_effective_area_def)
  next
    assume a: "get_quadrant phi_i = 4 \<and> get_quadrant phi_o = 4 \<and>
              clamps_idle self (phi_i - 270) theta_i \<and> clamps_idle self (phi_o - 270) theta_o"
    then have "calculate_special_case_new g self phi_i theta_i phi_o theta_o =
        calculate_special_case g self phi_i theta_i phi_o theta_o"
      by (simp add: calculate_special_case_new_def calculate_special_case_def qi combined_agree)
    with n show ?thesis by (simp add: calculate_effective_area_def)
  qed
qed

theorem variants_agree_witness:
  "cartesian_to_spherical (- 1) 0 0 = Inr (180, 0) \<and>
   cartesian_to_spherical (- 2) 0 0 = Inr (180, 0) \<and>
   py_mod 180 360 \<noteq> 270 \<and>
   (get_quadrant 180, get_quadrant 180) \<notin> {(1, 4), (4, 4)} \<and>
   calculate_effective_area_new chain_geometry (init None None None) (- 1) 0 0 (- 2) 0 0 =
   calculate_effective_area chain_geometry (init None None None) 180 0 180 0"
  using variants_agree [of "- 1" 0 0 180 0 "- 2" 0 0 180 0 "init None None None" chain_geometry]
  by (simp add: c2s_west c2s_west2 py_mod_small q_eval)

section \<open>Sun and satellite seen from the observer\<close>

lemma matvec_columns:
  "matvec (transpose3 (x_s, y_s, z_s)) v = weighted_axes x_s y_s z_s v"
  by (cases x_s, cases y_s, cases z_s, cases v) (simp add: algebra_simps)

lemma degrees_py_mod: "degrees (py_mod a (2 * pi)) = py_mod (degrees a) 360"
proof -
  define q where "q = real_of_int \<lfloor>a / (2 * pi)\<rfloor>"
  have e: "degrees a / 360 = a / (2 * pi)" by (simp add: degrees_def)
  have "degrees (a - 2 * pi * q) = degrees a - 360 * q"
    by (simp add: degrees_def field_simps)
  then show ?thesis unfolding py_mod_def e q_def .
qed

lemma xyz_to_alt_az_eq: "xyz_to_alt_az v = (altitude_deg v, azimuth_deg v)"
  by (cases v) (simp add: Let_def degrees_py_mod)

text \<open>
  C8, as it is stated, fails: for the sun direction (0, 1, 0) and the satellite direction
  (-1, 0, 0) the function returns the altitudes 90 and 0, and the projection through the
  transpose of \<open>T\<close> gives 0 and 90.
\<close>

theorem observer_frame_not_projection:
  "satellite_to_observer_frame (0, 1, 0) (- 1, 0, 0) = (90, 0, 0, 90) \<and>
   observer_frame_transform_spec (0, 1, 0) (- 1, 0, 0) = (0, 0, 90, 0)"
proof -
  have m: "py_mod (pi / 2) (2 * pi) = pi / 2" "py_mod 0 (2 * pi) = 0"
    by (simp_all add: py_mod_small)
  have a: "arctan2 1 0 = pi / 2" "arctan2 0 0 = 0" "arctan2 0 1 = 0"
    by (simp_all add: arctan2_def)
  show ?thesis
    by (simp add: satellite_to_observer_frame_def observer_frame_transform_spec_def
        frame_T_def frame_y_s_def Let_def m a degrees_def)
qed

text \<open>
  C8, amended. For non-zero vectors, \<open>T\<close> has the columns \<open>x_s\<close>, \<open>y_s\<close>, \<open>z_s\<close> with
  \<open>z_s\<close> the negated unit satellite direction, and the function multiplies the unit sun
  direction and the negated unit satellite direction by \<open>T\<close> itself: each result is the
  sum of the three axes weighted by the components of the vector. Of both results it
  returns the altitude, the arc sine of z over the length, and the azimuth, the two-argument
  arc tangent of y and x modulo 360, in degrees.
\<close>

theorem satellite_to_observer_frame_weights:
  assumes "norm3 i_xyz0 \<noteq> 0" and "norm3 o_xyz0 \<noteq> 0"
  shows "satellite_to_observer_frame i_xyz0 o_xyz0 =
     (let i_xyz = divide3 i_xyz0 (norm3 i_xyz0);
          o_xyz = divide3 o_xyz0 (norm3 o_xyz0);
          z_s = neg3 o_xyz;
          y_s = frame_y_s z_s i_xyz;
          x_s = divide3 (cross3 y_s z_s) (norm3 (cross3 y_s z_s));
          v_sun = weighted_axes x_s y_s z_s i_xyz;
          v_sat = weighted_axes x_s y_s z_s (neg3 o_xyz)
      in (altitude_deg v_sun, azimuth_deg v_sun, altitude_deg v_sat, azimuth_deg v_sat)) \<and>
     frame_T (divide3 i_xyz0 (norm3 i_xyz0)) (divide3 o_xyz0 (norm3 o_xyz0)) =
     (let z_s = neg3 (divide3 o_xyz0 (norm3 o_xyz0));
          y_s = frame_y_s z_s (divide3 i_xyz0 (norm3 i_xyz0));
          x_s = divide3 (cross3 y_s z_s) (norm3 (cross3 y_s z_s))
      in transpose3 (x_s, y_s, z_s))"
proof -
  let ?i = "divide3 i_xyz0 (norm3 i_xyz0)" and ?o = "divide3 o_xyz0 (norm3 o_xyz0)"
  let ?z = "neg3 ?o"
  let ?y = "frame_y_s ?z ?i"
  let ?x = "divide3 (cross3 ?y ?z) (norm3 (cross3 ?y ?z))"
  have T: "frame_T ?i ?o = transpose3 (?x, ?y, ?z)"
    by (simp add: frame_T_def Let_def)
  have sun: "matvec (frame_T ?i ?o) ?i = weighted_axes ?x ?y ?z ?i"
    unfolding T by (rule matvec_columns)
  have sat: "matvec (frame_T ?i ?o) (neg3 ?o) = weighted_axes ?x ?y ?z (neg3 ?o)"
    unfolding T by (rule matvec_columns)
  have "satellite_to_observer_frame i_xyz0 o_xyz0 =
      (altitude_deg (matvec (frame_T ?i ?o) ?i), azimuth_deg (matvec (frame_T ?i ?o) ?i),
       altitude_deg (matvec (frame_T ?i ?o) (neg3 ?o)),
       azimuth_deg (matvec (frame_T ?i ?o) (neg3 ?o)))"
    by (simp add: satellite_to_observer_frame_def Let_def xyz_to_alt_az_eq)
  then show ?thesis
    unfolding sun sat using T by (simp add: Let_def)
qed

theorem satellite_to_observer_frame_weights_witness:
  "norm3 (0, 1, 0) \<noteq> 0 \<and> norm3 (- 1, 0, 0) \<noteq> 0 \<and>
   satellite_to_observer_frame (0, 1, 0) (- 1, 0, 0) =
     (altitude_deg (0, 0, 1), azimuth_deg (0, 0, 1), altitude_deg (0, 1, 0), azimuth_deg (0, 1, 0))"
  using satellite_to_observer_frame_weights [of "(0, 1, 0)" "(- 1, 0, 0)"]
  by (simp add: frame_y_s_def Let_def)

end
